theory Spec2Isabelle
  imports Main "HOL-Library.Sublist"
begin

section \<open>Data model\<close>

text \<open>
  The types of \<^verbatim>\<open>src/index.tsx\<close>, lines 10-37. A field that may be \<^verbatim>\<open>null\<close> or
  \<^verbatim>\<open>undefined\<close> is an \<open>option\<close>. The \<^verbatim>\<open>b64\<close> field of an image is always produced by
  \<^verbatim>\<open>s.split(',')[1]\<close> (lines 126 and 220), which is \<^verbatim>\<open>undefined\<close> when \<^verbatim>\<open>s\<close> has no comma:
  \<open>None\<close> stands for that value.
\<close>

datatype Page = PHome | PCreator | PResult | PLoading | PProfile

datatype Pose = StandingStraight | SlightTurn | HandsOnHips | WalkingMotion

datatype BodyType = Rectangle | Triangle | InvertedTriangle | Hourglass | Round

record ImageFile =
  b64 :: "string option"
  mimeType :: string

record BodyScan =
  front :: "ImageFile option"
  side :: "ImageFile option"
  back' :: "ImageFile option"

record SavedOutfit =
  outfit_id :: string
  outfit_name :: string
  outfit_image :: string

record Profile =
  name :: string
  bodyScans :: BodyScan
  height :: string
  weight :: string
  bodyType :: "BodyType option"
  chest :: "string option"
  waist :: "string option"
  hips :: "string option"
  savedOutfits :: "SavedOutfit list"

text \<open>The profile of \<^verbatim>\<open>src/unnamed/part_000\<close> (lines 27-38) has one more field.\<close>

record FaceProfile = Profile +
  faceImage :: "ImageFile option"

subsection \<open>JavaScript strings\<close>

text \<open>\<^verbatim>\<open>!s\<close> on a string that may be null: true for \<^verbatim>\<open>null\<close> and for the empty string.\<close>

definition truthy :: "string option \<Rightarrow> bool" where
  "truthy s = (case s of None \<Rightarrow> False | Some t \<Rightarrow> t \<noteq> [])"

text \<open>\<^verbatim>\<open>s.split(c)\<close> for a one-character separator: never the empty list.\<close>

fun split_on :: "char \<Rightarrow> string \<Rightarrow> string list" where
  "split_on c [] = [[]]"
| "split_on c (x # xs) =
     (if x = c then [] # split_on c xs
      else (case split_on c xs of
              [] \<Rightarrow> [[x]]
            | w # ws \<Rightarrow> (x # w) # ws))"

text \<open>\<^verbatim>\<open>xs[i]\<close>: \<^verbatim>\<open>undefined\<close> out of range.\<close>

fun nth_opt :: "'a list \<Rightarrow> nat \<Rightarrow> 'a option" where
  "nth_opt [] i = None"
| "nth_opt (x # xs) 0 = Some x"
| "nth_opt (x # xs) (Suc i) = nth_opt xs i"

section \<open>The guided capture session\<close>

text \<open>
  \<^verbatim>\<open>BodyScanCapture\<close> (\<^verbatim>\<open>src/index.tsx\<close>, lines 40-139; the same code is in
  \<^verbatim>\<open>src/unnamed/part_000\<close>, lines 60-159). The state is the component's four state
  variables, the ref that holds the id of the countdown interval, and the intervals of the
  window that are running: each has its id and the variable \<^verbatim>\<open>count\<close> of the closure of its
  callback. \<open>nextTimerId\<close> is the id that \<^verbatim>\<open>window.setInterval\<close> returns next; ids are
  positive.
\<close>

datatype BodyScanStep = StepFront | StepSide | StepBack

record Capture =
  step :: BodyScanStep
  images :: BodyScan
  preview :: "string option"
  countdown :: "int option"
  countdownIntervalRef :: "nat option"
  intervals :: "(nat \<times> int) list"
  nextTimerId :: nat

definition initCapture :: Capture where
  "initCapture =
     \<lparr>step = StepFront,
      images = \<lparr>front = None, side = None, back' = None\<rparr>,
      preview = None,
      countdown = None,
      countdownIntervalRef = None,
      intervals = [],
      nextTimerId = 1\<rparr>"

definition clearInterval :: "nat \<Rightarrow> (nat \<times> int) list \<Rightarrow> (nat \<times> int) list" where
  "clearInterval i ts = filter (\<lambda>t. fst t \<noteq> i) ts"

text \<open>Lines 86-92: the guard, the first value shown, and the interval that is started.\<close>

definition handleCapture :: "Capture \<Rightarrow> Capture" where
  "handleCapture s =
     (if countdown s \<noteq> None then s
      else s\<lparr>countdown := Some 3,
             countdownIntervalRef := Some (nextTimerId s),
             intervals := intervals s @ [(nextTimerId s, 3)],
             nextTimerId := Suc (nextTimerId s)\<rparr>)"

text \<open>
  Lines 92-117: one firing of the interval \<open>i\<close>. A cleared interval does not fire. \<open>cam\<close> is
  what the camera gives when the frame is drawn: \<open>None\<close> when the video element or the 2D
  context is missing (lines 101 and 106), otherwise the data URL of the frame.
\<close>

definition intervalTick :: "nat \<Rightarrow> string option \<Rightarrow> Capture \<Rightarrow> Capture" where
  "intervalTick i cam s =
     (case map_of (intervals s) i of
        None \<Rightarrow> s
      | Some c \<Rightarrow>
          (let count = c - 1;
               s1 = s\<lparr>intervals := map (\<lambda>t. if fst t = i then (i, count) else t) (intervals s),
                      countdown := (if count > 0 then Some count else None)\<rparr>
           in if count = 0 then
                (let s2 = (case countdownIntervalRef s1 of
                             None \<Rightarrow> s1
                           | Some r \<Rightarrow>
                               if r \<noteq> 0 then s1\<lparr>intervals := clearInterval r (intervals s1)\<rparr>
                               else s1)
                 in case cam of
                      None \<Rightarrow> s2
                    | Some dataUrl \<Rightarrow> s2\<lparr>preview := Some dataUrl\<rparr>)
              else s1))"

text \<open>Lines 120-122.\<close>

definition handleRetake :: "Capture \<Rightarrow> Capture" where
  "handleRetake s = s\<lparr>preview := None\<rparr>"

text \<open>Lines 126-127: the image stored for a preview.\<close>

definition capturedImage :: "string \<Rightarrow> ImageFile" where
  "capturedImage p = \<lparr>b64 = nth_opt (split_on (CHR '','') p) 1, mimeType = ''image/jpeg''\<rparr>"

text \<open>
  Lines 124-139. The calls of the two callbacks of the parent, in order, are returned with the
  new state. \<^verbatim>\<open>!preview\<close> holds for \<^verbatim>\<open>null\<close> and for the empty string.
\<close>

datatype CaptureEvent = OnComplete BodyScan | OnClose

definition handleConfirm :: "Capture \<Rightarrow> Capture \<times> CaptureEvent list" where
  "handleConfirm s =
     (case preview s of
        None \<Rightarrow> (s, [])
      | Some p \<Rightarrow>
          if p = [] then (s, [])
          else
            (let img = capturedImage p;
                 newImages = (case step s of
                                StepFront \<Rightarrow> (images s)\<lparr>front := Some img\<rparr>
                              | StepSide \<Rightarrow> (images s)\<lparr>side := Some img\<rparr>
                              | StepBack \<Rightarrow> (images s)\<lparr>back' := Some img\<rparr>);
                 s1 = s\<lparr>images := newImages, preview := None\<rparr>
             in case step s of
                  StepFront \<Rightarrow> (s1\<lparr>step := StepSide\<rparr>, [])
                | StepSide \<Rightarrow> (s1\<lparr>step := StepBack\<rparr>, [])
                | StepBack \<Rightarrow> (s1, [OnComplete newImages, OnClose])))"

text \<open>
  Line 584 of \<^verbatim>\<open>src/index.tsx\<close>: the value of
  \<^verbatim>\<open>profile?.bodyScans?.front && profile?.bodyScans?.side && profile?.bodyScans?.back\<close>
  read as a condition.
\<close>

definition isScanComplete :: "'a Profile_scheme option \<Rightarrow> bool" where
  "isScanComplete p =
     (case p of
        None \<Rightarrow> False
      | Some q \<Rightarrow> front (bodyScans q) \<noteq> None \<and> side (bodyScans q) \<noteq> None
                    \<and> back' (bodyScans q) \<noteq> None)"

text \<open>
  \<^verbatim>\<open>s.trim()\<close>. A character stands for a code unit below 256; of the white space and the
  line terminators that \<^verbatim>\<open>trim\<close> strips, these are the tab, the line feed, the vertical tab,
  the form feed, the carriage return, the space and the no-break space.
\<close>

definition isSpace :: "char \<Rightarrow> bool" where
  "isSpace c =
     (c \<in> set [CHR 0x09, CHR 0x0A, CHR 0x0B, CHR 0x0C, CHR 0x0D, CHR '' '', CHR 0xA0])"

definition trim :: "string \<Rightarrow> string" where
  "trim s = rev (dropWhile isSpace (rev (dropWhile isSpace s)))"

text \<open>The decimal digits of a number, as a template literal prints \<^verbatim>\<open>Date.now()\<close>.\<close>

definition digit :: "nat \<Rightarrow> char" where
  "digit d = ''0123456789'' ! d"

fun show_nat :: "nat \<Rightarrow> string" where
  "show_nat n = (if n < 10 then [digit n] else show_nat (n div 10) @ [digit (n mod 10)])"

declare show_nat.simps [simp del]

section \<open>The profile page\<close>

text \<open>
  \<^verbatim>\<open>ProfilePage\<close> (\<^verbatim>\<open>src/index.tsx\<close>, lines 225-260). Its state variables \<^verbatim>\<open>name\<close>,
  \<^verbatim>\<open>bodyScans\<close>, \<^verbatim>\<open>height\<close>, \<^verbatim>\<open>weight\<close>, \<^verbatim>\<open>bodyType\<close>, \<^verbatim>\<open>chest\<close>, \<^verbatim>\<open>waist\<close>, \<^verbatim>\<open>hips\<close> and
  \<^verbatim>\<open>savedOutfits\<close> are the fields of \<open>draft\<close>: the object that \<^verbatim>\<open>onSave\<close> receives is built
  from exactly these (lines 247 and 259).
\<close>

record ProfilePage =
  draft :: Profile
  localError :: "string option"
  isScanning :: bool

datatype ProfileEvent = OnSave Profile | SetPage Page

definition orEmpty :: "string option \<Rightarrow> string" where
  "orEmpty s = (case s of None \<Rightarrow> [] | Some t \<Rightarrow> t)"

text \<open>Lines 230-240: the initial state, from the profile the page is given.\<close>

definition mountProfilePage :: "Profile option \<Rightarrow> ProfilePage" where
  "mountProfilePage profile =
     \<lparr>draft =
        (case profile of
           None \<Rightarrow>
             \<lparr>name = [], bodyScans = \<lparr>front = None, side = None, back' = None\<rparr>,
              height = [], weight = [], bodyType = None,
              chest = Some [], waist = Some [], hips = Some [], savedOutfits = []\<rparr>
         | Some p \<Rightarrow>
             \<lparr>name = name p, bodyScans = bodyScans p,
              height = height p, weight = weight p, bodyType = bodyType p,
              chest = Some (orEmpty (chest p)), waist = Some (orEmpty (waist p)),
              hips = Some (orEmpty (hips p)), savedOutfits = savedOutfits p\<rparr>),
      localError = None,
      isScanning = False\<rparr>"

text \<open>Lines 242-249.\<close>

definition handleSave :: "ProfilePage \<Rightarrow> ProfilePage \<times> ProfileEvent list" where
  "handleSave pp =
     (if name (draft pp) = [] \<or> front (bodyScans (draft pp)) = None
         \<or> side (bodyScans (draft pp)) = None \<or> back' (bodyScans (draft pp)) = None
         \<or> height (draft pp) = [] \<or> weight (draft pp) = []
      then (pp\<lparr>localError :=
                 Some ''Please complete your name, measurements, and the 3-angle body scan.''\<rparr>,
            [])
      else (pp, [OnSave (draft pp), SetPage PCreator]))"

text \<open>Lines 251-254.\<close>

definition handleScanComplete :: "BodyScan \<Rightarrow> ProfilePage \<Rightarrow> ProfilePage" where
  "handleScanComplete scans pp = pp\<lparr>draft := (draft pp)\<lparr>bodyScans := scans\<rparr>, isScanning := False\<rparr>"

text \<open>Lines 256-260.\<close>

definition handleDeleteOutfit :: "string \<Rightarrow> ProfilePage \<Rightarrow> ProfilePage \<times> ProfileEvent list" where
  "handleDeleteOutfit idToDelete pp =
     (let updatedOutfits = filter (\<lambda>outfit. outfit_id outfit \<noteq> idToDelete)
                             (savedOutfits (draft pp))
      in (pp\<lparr>draft := (draft pp)\<lparr>savedOutfits := updatedOutfits\<rparr>\<rparr>,
          [OnSave ((draft pp)\<lparr>savedOutfits := updatedOutfits\<rparr>)]))"

section \<open>The application\<close>

subsection \<open>The external service\<close>

text \<open>
  A request part is an inline image or the text. The text is a template literal with a fixed
  wording; \<open>Text\<close> holds the values interpolated into it, in the order in which they occur.
\<close>

datatype Part = InlineData "string option" string | Text "string list"

datatype Modality = IMAGE | TEXT

record Request =
  model :: string
  parts :: "Part list"
  responseModalities :: "Modality list"

text \<open>
  A response: \<^verbatim>\<open>candidates\<close> may be missing, and so may the \<^verbatim>\<open>content\<close> of a candidate and
  the \<^verbatim>\<open>parts\<close> of a content; \<open>responseText\<close> is the \<^verbatim>\<open>text\<close> property of the response.
\<close>

datatype Blob = Blob (blobData: string) (blobMimeType: string)

datatype ResponsePart = ResponsePart (inlineData: "Blob option") (partText: "string option")

datatype Content = Content (contentParts: "ResponsePart list option")

datatype Candidate = Candidate (content: "Content option")

record Response =
  candidates :: "Candidate list option"
  responseText :: "string option"

text \<open>A call returns, or throws an error whose \<^verbatim>\<open>message\<close> may be missing.\<close>

datatype 'a Try = Returns 'a | Throws "string option"

text \<open>
  The reads of \<^verbatim>\<open>response.candidates[0].content.parts\<close> and of its elements that throw a
  \<^verbatim>\<open>TypeError\<close>: the element 0 of missing candidates, the content of a missing first
  candidate, the parts of a missing content, and the iteration over missing parts.
\<close>

datatype FailedRead = ReadFirst | ReadContent | ReadParts | IterateParts

text \<open>
  What \<^verbatim>\<open>handleGenerate\<close> meets outside the program: the clock when it starts and when the
  response is handled, the constructor of the client, the service, and the message that the
  engine gives to the \<^verbatim>\<open>TypeError\<close> of a failed read.
\<close>

record GenerateEnv =
  startTime :: nat
  endTime :: nat
  newClient :: "unit Try"
  generateContent :: "Request \<Rightarrow> Response Try"
  typeErrorMessage :: "FailedRead \<Rightarrow> string"

subsection \<open>State\<close>

text \<open>
  The state variables of \<^verbatim>\<open>App\<close> (\<^verbatim>\<open>src/index.tsx\<close>, lines 392-401), and around them the item
  of the local storage that holds the profile, as the object that \<^verbatim>\<open>JSON.parse\<close> gives, and
  the requests sent to the service so far.
\<close>

record 'p App =
  page :: Page
  pageKey :: nat
  profile :: "'p option"
  clothingImage :: "ImageFile option"
  selectedPose :: Pose
  resultImage :: "string option"
  error :: "string option"
  isSavingOutfit :: bool
  newOutfitName :: string
  isOutfitSaved :: bool

record ('p, 'r) World = "'p App" +
  localStorage :: "'r option"
  calls :: "Request list"

text \<open>
  The stored object of \<^verbatim>\<open>src/index.tsx\<close>: a profile written by an older version has
  \<^verbatim>\<open>photos\<close> and may lack \<^verbatim>\<open>bodyScans\<close> and \<^verbatim>\<open>savedOutfits\<close>.
\<close>

record StoredProfile =
  photos :: "ImageFile list option"
  stored_name :: string
  stored_bodyScans :: "BodyScan option"
  stored_height :: string
  stored_weight :: string
  stored_bodyType :: "BodyType option"
  stored_chest :: "string option"
  stored_waist :: "string option"
  stored_hips :: "string option"
  stored_savedOutfits :: "SavedOutfit list option"

text \<open>\<^verbatim>\<open>JSON.stringify\<close> of a profile, read back.\<close>

definition toStored :: "Profile \<Rightarrow> StoredProfile" where
  "toStored p =
     \<lparr>photos = None,
      stored_name = name p,
      stored_bodyScans = Some (bodyScans p),
      stored_height = height p,
      stored_weight = weight p,
      stored_bodyType = bodyType p,
      stored_chest = chest p,
      stored_waist = waist p,
      stored_hips = hips p,
      stored_savedOutfits = Some (savedOutfits p)\<rparr>"

text \<open>Lines 426-429.\<close>

definition changePage :: "nat \<Rightarrow> Page \<Rightarrow> ('p, 'z) App_scheme \<Rightarrow> ('p, 'z) App_scheme" where
  "changePage now newPage w = w\<lparr>pageKey := now, page := newPage\<rparr>"

subsection \<open>Loading the profile\<close>

text \<open>Lines 435-448: the migration of the stored object, in place.\<close>

definition migrate :: "StoredProfile \<Rightarrow> StoredProfile" where
  "migrate savedProfile =
     (let r1 = (case photos savedProfile of
                  None \<Rightarrow> savedProfile
                | Some ps \<Rightarrow>
                    savedProfile\<lparr>stored_bodyScans :=
                                   Some \<lparr>front = nth_opt ps 0, side = nth_opt ps 1,
                                         back' = nth_opt ps 2\<rparr>,
                                 photos := None\<rparr>);
          r2 = (case stored_bodyScans r1 of
                  None \<Rightarrow> r1\<lparr>stored_bodyScans := Some \<lparr>front = None, side = None, back' = None\<rparr>\<rparr>
                | Some _ \<Rightarrow> r1)
      in case stored_savedOutfits r2 of
           None \<Rightarrow> r2\<lparr>stored_savedOutfits := Some []\<rparr>
         | Some _ \<Rightarrow> r2)"

text \<open>
  The migrated object, read as a \<^verbatim>\<open>Profile\<close> (line 449). After \<open>migrate\<close> the two fields are
  present.
\<close>

definition asProfile :: "StoredProfile \<Rightarrow> Profile" where
  "asProfile r =
     \<lparr>name = stored_name r,
      bodyScans = (case stored_bodyScans r of
                     None \<Rightarrow> \<lparr>front = None, side = None, back' = None\<rparr>
                   | Some scans \<Rightarrow> scans),
      height = stored_height r,
      weight = stored_weight r,
      bodyType = stored_bodyType r,
      chest = stored_chest r,
      waist = stored_waist r,
      hips = stored_hips r,
      savedOutfits = (case stored_savedOutfits r of None \<Rightarrow> [] | Some outfits \<Rightarrow> outfits)\<rparr>"

text \<open>Lines 431-454: the effect that runs once, when the application starts.\<close>

definition loadProfile ::
  "nat \<Rightarrow> (Profile, StoredProfile) World \<Rightarrow> (Profile, StoredProfile) World" where
  "loadProfile now w =
     (case localStorage w of
        Some savedProfile \<Rightarrow>
          changePage now PHome (w\<lparr>profile := Some (asProfile (migrate savedProfile))\<rparr>)
      | None \<Rightarrow> changePage now PProfile w)"

text \<open>
  Lines 456-459. \<^verbatim>\<open>localStorage.setItem\<close> throws when the quota is exceeded: \<open>writeOk\<close> tells
  whether it returns.
\<close>

definition handleSaveProfile ::
  "bool \<Rightarrow> Profile \<Rightarrow> (Profile, StoredProfile) World \<Rightarrow> (Profile, StoredProfile) World" where
  "handleSaveProfile writeOk newProfile w =
     (let w1 = w\<lparr>profile := Some newProfile\<rparr>
      in if writeOk then w1\<lparr>localStorage := Some (toStored newProfile)\<rparr> else w1)"

subsection \<open>Generating an image, in \<^verbatim>\<open>src/index.tsx\<close>\<close>

definition poseText :: "Pose \<Rightarrow> string" where
  "poseText pose =
     (case pose of
        StandingStraight \<Rightarrow> ''Standing Straight''
      | SlightTurn \<Rightarrow> ''Slight 3/4 Turn''
      | HandsOnHips \<Rightarrow> ''Hands on Hips''
      | WalkingMotion \<Rightarrow> ''Walking Motion'')"

definition bodyTypeText :: "BodyType \<Rightarrow> string" where
  "bodyTypeText t =
     (case t of
        Rectangle \<Rightarrow> ''Rectangle''
      | Triangle \<Rightarrow> ''Triangle''
      | InvertedTriangle \<Rightarrow> ''Inverted Triangle''
      | Hourglass \<Rightarrow> ''Hourglass''
      | Round \<Rightarrow> ''Round'')"

definition newline :: string where
  "newline = [CHR 0x0A]"

text \<open>Lines 486-493.\<close>

definition userProvidedProfile :: "'a Profile_scheme \<Rightarrow> string" where
  "userProvidedProfile p =
     trim (newline @ ''- Height: '' @ height p @ '' feet'' @ newline
           @ ''- Weight: '' @ weight p @ '' kilograms'' @ newline
           @ (case bodyType p of
                None \<Rightarrow> []
              | Some t \<Rightarrow> ''- Body Type: '' @ bodyTypeText t) @ newline
           @ (if truthy (chest p)
              then ''- Chest: '' @ orEmpty (chest p) @ '' inches'' else []) @ newline
           @ (if truthy (waist p)
              then ''- Waist: '' @ orEmpty (waist p) @ '' inches'' else []) @ newline
           @ (if truthy (hips p)
              then ''- Hips: '' @ orEmpty (hips p) @ '' inches'' else []) @ newline
           @ replicate 8 (CHR '' ''))"

definition inlinePart :: "ImageFile \<Rightarrow> Part" where
  "inlinePart img = InlineData (b64 img) (mimeType img)"

text \<open>
  Lines 479-526, for a profile whose three scans are \<open>f\<close>, \<open>s\<close> and \<open>b\<close>: the parts of the
  request.
\<close>

definition requestParts ::
  "ImageFile \<Rightarrow> ImageFile \<Rightarrow> ImageFile \<Rightarrow> ImageFile \<Rightarrow> 'a Profile_scheme \<Rightarrow> Pose \<Rightarrow> Part list" where
  "requestParts clothing f s b p pose =
     (let clothingPart = inlinePart clothing;
          personParts = [inlinePart f, inlinePart s, inlinePart b];
          textPart = Text [name p, userProvidedProfile p, name p,
                           name p, poseText pose]
      in [clothingPart] @ personParts @ [textPart])"

definition modelName :: string where
  "modelName = ''gemini-2.5-flash-image-preview''"

text \<open>Line 537: \<^verbatim>\<open>response.candidates?.[0]?.content?.parts?.find(part => part.inlineData)\<close>.\<close>

definition firstCandidateParts :: "Response \<Rightarrow> ResponsePart list option" where
  "firstCandidateParts response =
     (case candidates response of
        None \<Rightarrow> None
      | Some [] \<Rightarrow> None
      | Some (candidate # _) \<Rightarrow>
          (case content candidate of
             None \<Rightarrow> None
           | Some c \<Rightarrow> contentParts c))"

definition imagePart :: "Response \<Rightarrow> ResponsePart option" where
  "imagePart response =
     (case firstCandidateParts response of
        None \<Rightarrow> None
      | Some ps \<Rightarrow> find (\<lambda>part. inlineData part \<noteq> None) ps)"

definition dataUrl :: "string \<Rightarrow> string \<Rightarrow> string" where
  "dataUrl mime dat = ''data:'' @ mime @ '';base64,'' @ dat"

definition defaultExplanation :: string where
  "defaultExplanation = ''No image was generated. The model may have refused the request due to safety policies. Please try a different set of images.''"

text \<open>Lines 537-545: what is done with a response.\<close>

definition handleResponse :: "nat \<Rightarrow> Response \<Rightarrow> ('p, 'z) App_scheme \<Rightarrow> ('p, 'z) App_scheme" where
  "handleResponse now response w =
     (case (case imagePart response of None \<Rightarrow> None | Some part \<Rightarrow> inlineData part) of
        Some blob \<Rightarrow>
          changePage now PResult
            (w\<lparr>resultImage := Some (dataUrl (blobMimeType blob) (blobData blob))\<rparr>)
      | None \<Rightarrow>
          (let textResponse = (if truthy (responseText response)
                               then orEmpty (responseText response) else defaultExplanation)
           in changePage now PCreator
                (w\<lparr>error := Some (''Failed to generate image. Response: '' @ textResponse)\<rparr>)))"

text \<open>
  Lines 461-551. The constructor of the client and the assembly of the request are outside
  the \<^verbatim>\<open>try\<close>: when the constructor throws, nothing after it runs.
\<close>

definition handleGenerate ::
  "GenerateEnv \<Rightarrow> ('a Profile_scheme, 'r) World \<Rightarrow> ('a Profile_scheme, 'r) World" where
  "handleGenerate env w =
     (case (clothingImage w, profile w) of
        (Some clothing, Some p) \<Rightarrow>
          (case (front (bodyScans p), side (bodyScans p), back' (bodyScans p)) of
             (Some f, Some s, Some b) \<Rightarrow>
               (let w1 = (changePage (startTime env) PLoading w)\<lparr>error := None, resultImage := None\<rparr>
                in case newClient env of
                     Throws _ \<Rightarrow> w1
                   | Returns _ \<Rightarrow>
                       (let request = \<lparr>model = modelName,
                                       parts = requestParts clothing f s b p (selectedPose w),
                                       responseModalities = [IMAGE, TEXT]\<rparr>;
                            w2 = w1\<lparr>calls := calls w1 @ [request]\<rparr>
                        in case generateContent env request of
                             Returns response \<Rightarrow> handleResponse (endTime env) response w2
                           | Throws message \<Rightarrow>
                               changePage (endTime env) PCreator
                                 (w2\<lparr>error := Some (if truthy message then orEmpty message
                                                     else ''An unexpected error occurred.'')\<rparr>)))
           | _ \<Rightarrow>
               changePage (startTime env) PProfile
                 (w\<lparr>error := Some ''Please complete the 3-angle body scan in your profile for best results.''\<rparr>))
      | _ \<Rightarrow>
          w\<lparr>error := Some ''Please upload a clothing item and ensure your profile is complete.''\<rparr>)"

subsection \<open>Generating an image, in \<^verbatim>\<open>src/unnamed/part_000\<close>\<close>

text \<open>Lines 610-647: the parts of the request.\<close>

definition requestParts_part0 ::
  "ImageFile \<Rightarrow> ImageFile \<Rightarrow> ImageFile \<Rightarrow> ImageFile \<Rightarrow> 'a FaceProfile_scheme \<Rightarrow> Pose \<Rightarrow> Part list" where
  "requestParts_part0 clothing f s b p pose =
     (let clothingImagePart = inlinePart clothing;
          textPart = Text [case bodyType p of
                             None \<Rightarrow> ''not specified''
                           | Some t \<Rightarrow> bodyTypeText t,
                           if faceImage p \<noteq> None
                           then ''You are also provided with a selfie. Use this to understand the user's facial features, skin tone, and hairstyle.''
                           else ''No selfie provided; generate a face that matches the general features of the person in the body scans.'',
                           poseText pose]
      in (case faceImage p of None \<Rightarrow> [] | Some face \<Rightarrow> [inlinePart face])
         @ [inlinePart f, inlinePart s, inlinePart b, clothingImagePart, textPart])"

text \<open>Lines 653-659: the loop over the parts of the first candidate.\<close>

fun generatedImage :: "ResponsePart list \<Rightarrow> Blob option" where
  "generatedImage [] = None"
| "generatedImage (part # rest) =
     (case inlineData part of
        None \<Rightarrow> generatedImage rest
      | Some blob \<Rightarrow>
          if prefix ''image/'' (blobMimeType blob) then Some blob else generatedImage rest)"

text \<open>Lines 670-674: the \<^verbatim>\<open>catch\<close> clause, for an error with the given message.\<close>

definition caught :: "string option \<Rightarrow> ('p, 'z) App_scheme \<Rightarrow> ('p, 'z) App_scheme" where
  "caught message w =
     w\<lparr>error := Some (''Sorry, we couldn't generate the image. ''
                       @ (if truthy message then orEmpty message else ''Please try again.'')),
       page := PCreator\<rparr>"

text \<open>
  Line 654: \<^verbatim>\<open>response.candidates[0].content.parts\<close>, read without optional chaining, as the
  operand of the loop: the parts, or the read that throws.
\<close>

definition strictParts :: "Response \<Rightarrow> FailedRead + ResponsePart list" where
  "strictParts response =
     (case candidates response of
        None \<Rightarrow> Inl ReadFirst
      | Some [] \<Rightarrow> Inl ReadContent
      | Some (candidate # _) \<Rightarrow>
          (case content candidate of
             None \<Rightarrow> Inl ReadParts
           | Some c \<Rightarrow>
               (case contentParts c of
                  None \<Rightarrow> Inl IterateParts
                | Some ps \<Rightarrow> Inr ps)))"

definition noImageMessage :: string where
  "noImageMessage = ''The AI did not return an image. It might have responded with text instead. Please check your prompt or try a different image.''"

text \<open>Lines 594-675. Here everything after the validation is inside the \<^verbatim>\<open>try\<close>.\<close>

definition handleGenerate_part0 ::
  "GenerateEnv \<Rightarrow> ('a FaceProfile_scheme, 'r) World \<Rightarrow> ('a FaceProfile_scheme, 'r) World" where
  "handleGenerate_part0 env w =
     (case (profile w, clothingImage w) of
        (Some p, Some clothing) \<Rightarrow>
          (case (front (bodyScans p), side (bodyScans p), back' (bodyScans p)) of
             (Some f, Some s, Some b) \<Rightarrow>
               (let w1 = w\<lparr>page := PLoading, resultImage := None, error := None\<rparr>
                in case newClient env of
                     Throws message \<Rightarrow> caught message w1
                   | Returns _ \<Rightarrow>
                       (let request = \<lparr>model = modelName,
                                       parts = requestParts_part0 clothing f s b p (selectedPose w),
                                       responseModalities = [IMAGE, TEXT]\<rparr>;
                            w2 = w1\<lparr>calls := calls w1 @ [request]\<rparr>
                        in case generateContent env request of
                             Throws message \<Rightarrow> caught message w2
                           | Returns response \<Rightarrow>
                               (case strictParts response of
                                  Inl failed \<Rightarrow>
                                    caught (Some (typeErrorMessage env failed)) w2
                                | Inr ps \<Rightarrow>
                                    (case generatedImage ps of
                                       Some blob \<Rightarrow>
                                         w2\<lparr>resultImage :=
                                               Some (dataUrl (blobMimeType blob) (blobData blob)),
                                            page := PResult,
                                            isOutfitSaved := False,
                                            newOutfitName := []\<rparr>
                                     | None \<Rightarrow> caught (Some noImageMessage) w2))))
           | _ \<Rightarrow>
               w\<lparr>error := Some ''Please complete your profile, including the 3-angle body scan, and upload a clothing image first.''\<rparr>)
      | _ \<Rightarrow>
          w\<lparr>error := Some ''Please complete your profile, including the 3-angle body scan, and upload a clothing image first.''\<rparr>)"

subsection \<open>The result page of \<^verbatim>\<open>src/index.tsx\<close>\<close>

text \<open>Lines 553-562.\<close>

definition handleReset :: "nat \<Rightarrow> ('p, 'z) App_scheme \<Rightarrow> ('p, 'z) App_scheme" where
  "handleReset now w =
     changePage now PCreator
       (w\<lparr>clothingImage := None, selectedPose := StandingStraight, resultImage := None,
          error := None, isSavingOutfit := False, newOutfitName := [],
          isOutfitSaved := False\<rparr>)"

text \<open>
  Lines 564-582. \<open>now\<close> is \<^verbatim>\<open>Date.now()\<close>. The profile is set before the item is written: when
  \<^verbatim>\<open>localStorage.setItem\<close> throws (\<open>writeOk\<close> is false), the two calls after it do not run.
\<close>

definition handleSaveOutfit ::
  "nat \<Rightarrow> bool \<Rightarrow> (Profile, StoredProfile) World \<Rightarrow> (Profile, StoredProfile) World" where
  "handleSaveOutfit now writeOk w =
     (case (resultImage w, profile w) of
        (Some img, Some p) \<Rightarrow>
          if trim (newOutfitName w) = [] \<or> img = [] then w
          else
            (let newOutfit = \<lparr>outfit_id = ''outfit_'' @ show_nat now,
                              outfit_name = newOutfitName w,
                              outfit_image = img\<rparr>;
                 updatedProfile = p\<lparr>savedOutfits := savedOutfits p @ [newOutfit]\<rparr>;
                 w1 = w\<lparr>profile := Some updatedProfile\<rparr>
             in if writeOk
                then w1\<lparr>localStorage := Some (toStored updatedProfile),
                        isOutfitSaved := True, isSavingOutfit := False\<rparr>
                else w1)
      | _ \<Rightarrow> w)"

text \<open>
  Lines 376-388 and 657-693: what the user can do on the result page. A control that is not
  rendered, or is disabled, does nothing.
\<close>

datatype ResultAction =
    TypeOutfitName string
  | ClickCancel
  | ClickConfirmSave
  | ClickCreateNew
  | ClickAddToLookbook
  | ClickLogo
  | ClickManageProfile

definition resultAction ::
  "nat \<Rightarrow> bool \<Rightarrow> ResultAction \<Rightarrow> (Profile, StoredProfile) World
     \<Rightarrow> (Profile, StoredProfile) World" where
  "resultAction now writeOk a w =
     (if page w \<noteq> PResult then w
      else case a of
             ClickLogo \<Rightarrow> changePage now PHome w
           | ClickManageProfile \<Rightarrow> changePage now PProfile w
           | TypeOutfitName s \<Rightarrow> if isSavingOutfit w then w\<lparr>newOutfitName := s\<rparr> else w
           | ClickCancel \<Rightarrow> if isSavingOutfit w then w\<lparr>isSavingOutfit := False\<rparr> else w
           | ClickConfirmSave \<Rightarrow>
               if isSavingOutfit w \<and> trim (newOutfitName w) \<noteq> []
               then handleSaveOutfit now writeOk w else w
           | ClickCreateNew \<Rightarrow> if isSavingOutfit w then w else handleReset now w
           | ClickAddToLookbook \<Rightarrow>
               if isSavingOutfit w \<or> isOutfitSaved w then w else w\<lparr>isSavingOutfit := True\<rparr>)"

text \<open>A sequence of actions, each at its time and with the outcome of its write.\<close>

fun resultActions ::
  "(nat \<times> bool \<times> ResultAction) list \<Rightarrow> (Profile, StoredProfile) World
     \<Rightarrow> (Profile, StoredProfile) World" where
  "resultActions [] w = w"
| "resultActions ((now, writeOk, a) # rest) w = resultActions rest (resultAction now writeOk a w)"

section \<open>Objects and arrays\<close>

text \<open>
  In the program a profile is an object, and its \<^verbatim>\<open>savedOutfits\<close> an array that the object
  refers to. To say what an operation does to the objects it is given, the two operations on
  the saved outfits are written again over a store of profile objects and arrays: an object
  spread or an object literal allocates a profile object, an array spread or \<^verbatim>\<open>filter\<close>
  allocates an array, and nothing else is written. \<open>nextRef\<close> is the next reference to be
  given out. A profile object always holds the reference of an array (\<^verbatim>\<open>loadProfile\<close> sees
  to it, lines 446-448), so the second operand of \<^verbatim>\<open>profile.savedOutfits || []\<close> is never
  taken; on a reference without an object or an array the two operations give \<open>None\<close>.
\<close>

type_synonym ref = nat

record ProfileObject =
  obj_name :: string
  obj_bodyScans :: BodyScan
  obj_height :: string
  obj_weight :: string
  obj_bodyType :: "BodyType option"
  obj_chest :: "string option"
  obj_waist :: "string option"
  obj_hips :: "string option"
  obj_savedOutfits :: ref

record Store =
  profileAt :: "ref \<Rightarrow> ProfileObject option"
  arrayAt :: "ref \<Rightarrow> SavedOutfit list option"
  nextRef :: ref

definition allocArray :: "SavedOutfit list \<Rightarrow> Store \<Rightarrow> Store \<times> ref" where
  "allocArray xs st =
     (st\<lparr>arrayAt := (arrayAt st)(nextRef st \<mapsto> xs), nextRef := Suc (nextRef st)\<rparr>, nextRef st)"

definition allocProfile :: "ProfileObject \<Rightarrow> Store \<Rightarrow> Store \<times> ref" where
  "allocProfile obj st =
     (st\<lparr>profileAt := (profileAt st)(nextRef st \<mapsto> obj), nextRef := Suc (nextRef st)\<rparr>,
      nextRef st)"

text \<open>The profile that a reference stands for.\<close>

definition readProfile :: "Store \<Rightarrow> ref \<Rightarrow> Profile option" where
  "readProfile st r =
     (case profileAt st r of
        None \<Rightarrow> None
      | Some obj \<Rightarrow>
          (case arrayAt st (obj_savedOutfits obj) of
             None \<Rightarrow> None
           | Some outfits \<Rightarrow>
               Some \<lparr>name = obj_name obj, bodyScans = obj_bodyScans obj,
                     height = obj_height obj, weight = obj_weight obj,
                     bodyType = obj_bodyType obj, chest = obj_chest obj,
                     waist = obj_waist obj, hips = obj_hips obj,
                     savedOutfits = outfits\<rparr>))"

text \<open>
  Lines 573-576 of \<^verbatim>\<open>src/index.tsx\<close>, in \<^verbatim>\<open>handleSaveOutfit\<close>:
  \<^verbatim>\<open>{...profile, savedOutfits: [...(profile.savedOutfits || []), newOutfit]}\<close>, for the profile
  at \<open>r\<close>. The result is the new store and the reference of \<^verbatim>\<open>updatedProfile\<close>.
\<close>

definition updatedProfile :: "SavedOutfit \<Rightarrow> ref \<Rightarrow> Store \<Rightarrow> (Store \<times> ref) option" where
  "updatedProfile newOutfit r st =
     (case profileAt st r of
        None \<Rightarrow> None
      | Some obj \<Rightarrow>
          (case arrayAt st (obj_savedOutfits obj) of
             None \<Rightarrow> None
           | Some outfits \<Rightarrow>
               (let (st1, a) = allocArray (outfits @ [newOutfit]) st
                in Some (allocProfile (obj\<lparr>obj_savedOutfits := a\<rparr>) st1))))"

text \<open>
  Lines 230-238: the state variables of the profile page opened on the profile object
  \<open>obj\<close>. They hold the strings of the object and the references it holds.
\<close>

definition pageVariables :: "ProfileObject \<Rightarrow> ProfileObject" where
  "pageVariables obj =
     obj\<lparr>obj_chest := Some (orEmpty (obj_chest obj)),
         obj_waist := Some (orEmpty (obj_waist obj)),
         obj_hips := Some (orEmpty (obj_hips obj))\<rparr>"

text \<open>
  Lines 256-260, \<^verbatim>\<open>handleDeleteOutfit\<close> on the profile page opened on the profile at \<open>r\<close>:
  \<^verbatim>\<open>savedOutfits.filter(...)\<close> and the object literal that \<^verbatim>\<open>onSave\<close> receives. The result is
  the new store and the reference of that object.
\<close>

definition deletedProfile :: "string \<Rightarrow> ref \<Rightarrow> Store \<Rightarrow> (Store \<times> ref) option" where
  "deletedProfile idToDelete r st =
     (case profileAt st r of
        None \<Rightarrow> None
      | Some obj \<Rightarrow>
          (case arrayAt st (obj_savedOutfits (pageVariables obj)) of
             None \<Rightarrow> None
           | Some outfits \<Rightarrow>
               (let (st1, a) = allocArray
                                 (filter (\<lambda>outfit. outfit_id outfit \<noteq> idToDelete) outfits) st
                in Some (allocProfile ((pageVariables obj)\<lparr>obj_savedOutfits := a\<rparr>) st1))))"

text \<open>Every object and array of the first store is in the second, as it was.\<close>

definition sameObjects :: "Store \<Rightarrow> Store \<Rightarrow> bool" where
  "sameObjects st st' =
     (\<forall>r \<in> {..<nextRef st}. profileAt st' r = profileAt st r \<and> arrayAt st' r = arrayAt st r)"

section \<open>Sessions and example values\<close>

text \<open>What can happen to a capture session: the three buttons, and a firing of an interval.\<close>

datatype CaptureAction = Capture | Tick nat "string option" | Retake | Confirm

definition captureStep :: "CaptureAction \<Rightarrow> Capture \<Rightarrow> Capture" where
  "captureStep a s =
     (case a of
        Capture \<Rightarrow> handleCapture s
      | Tick i cam \<Rightarrow> intervalTick i cam s
      | Retake \<Rightarrow> handleRetake s
      | Confirm \<Rightarrow> fst (handleConfirm s))"

fun captureSteps :: "CaptureAction list \<Rightarrow> Capture \<Rightarrow> Capture" where
  "captureSteps [] s = s"
| "captureSteps (a # rest) s = captureSteps rest (captureStep a s)"

text \<open>
  The countdown and the running intervals agree: no interval runs while no number is shown,
  and while the number \<open>c\<close> is shown exactly one runs, the one the ref holds, with \<open>c\<close> as
  its count.
\<close>

definition timerInv :: "Capture \<Rightarrow> bool" where
  "timerInv s =
     (nextTimerId s \<noteq> 0 \<and>
      (case countdown s of
         None \<Rightarrow> intervals s = []
       | Some c \<Rightarrow>
           0 < c \<and> (case countdownIntervalRef s of
                      None \<Rightarrow> False
                    | Some r \<Rightarrow> r \<noteq> 0 \<and> intervals s = [(r, c)])))"

text \<open>Values for the examples.\<close>

definition exampleImage :: "string \<Rightarrow> ImageFile" where
  "exampleImage d = \<lparr>b64 = Some d, mimeType = ''image/png''\<rparr>"

definition exampleProfile :: Profile where
  "exampleProfile =
     \<lparr>name = ''Alex'',
      bodyScans = \<lparr>front = Some (exampleImage ''F''), side = Some (exampleImage ''S''),
                   back' = Some (exampleImage ''B'')\<rparr>,
      height = ''5.8'', weight = ''70'', bodyType = None,
      chest = Some [], waist = Some [], hips = Some [], savedOutfits = []\<rparr>"

definition exampleWorld :: "(Profile, StoredProfile) World" where
  "exampleWorld =
     \<lparr>page = PCreator, pageKey = 0, profile = Some exampleProfile,
      clothingImage = Some (exampleImage ''C''), selectedPose = StandingStraight,
      resultImage = None, error = None, isSavingOutfit = False, newOutfitName = [],
      isOutfitSaved = False, localStorage = Some (toStored exampleProfile), calls = []\<rparr>"

definition exampleFaceProfile :: FaceProfile where
  "exampleFaceProfile =
     \<lparr>name = ''Alex'',
      bodyScans = \<lparr>front = Some (exampleImage ''F''), side = Some (exampleImage ''S''),
                   back' = Some (exampleImage ''B'')\<rparr>,
      height = ''5.8'', weight = ''70'', bodyType = None,
      chest = Some [], waist = Some [], hips = Some [], savedOutfits = [],
      faceImage = Some (exampleImage ''A'')\<rparr>"

definition exampleFaceWorld :: "(FaceProfile, FaceProfile) World" where
  "exampleFaceWorld =
     \<lparr>page = PCreator, pageKey = 0, profile = Some exampleFaceProfile,
      clothingImage = Some (exampleImage ''C''), selectedPose = StandingStraight,
      resultImage = None, error = None, isSavingOutfit = False, newOutfitName = [],
      isOutfitSaved = False, localStorage = Some exampleFaceProfile, calls = []\<rparr>"

text \<open>
  A service that answers every request with the given response, on an engine whose
  messages for the failed reads are these.
\<close>

definition exampleEnv :: "Response \<Rightarrow> GenerateEnv" where
  "exampleEnv response =
     \<lparr>startTime = 1, endTime = 2, newClient = Returns (),
      generateContent = (\<lambda>request. Returns response),
      typeErrorMessage =
        (\<lambda>failed. case failed of
                     ReadFirst \<Rightarrow> ''Cannot read properties of undefined (reading '0')''
                   | ReadContent \<Rightarrow> ''Cannot read properties of undefined (reading 'content')''
                   | ReadParts \<Rightarrow> ''Cannot read properties of undefined (reading 'parts')''
                   | IterateParts \<Rightarrow> ''undefined is not iterable'')\<rparr>"

text \<open>A response without an image, with the text of the refusal.\<close>

definition refusal :: Response where
  "refusal =
     \<lparr>candidates = Some [Candidate (Some (Content (Some
                      [ResponsePart None (Some ''safety policy'')])))],
      responseText = Some ''safety policy''\<rparr>"


text \<open>A response whose second part is an image.\<close>

definition imageResponse :: Response where
  "imageResponse =
     \<lparr>candidates = Some [Candidate (Some (Content (Some
                      [ResponsePart None (Some ''Here it is''),
                       ResponsePart (Some (Blob ''IMG'' ''image/png'')) None])))],
      responseText = Some ''Here it is''\<rparr>"

text \<open>A response whose first part is inline data that is not an image.\<close>

definition mixedResponse :: Response where
  "mixedResponse =
     \<lparr>candidates = Some [Candidate (Some (Content (Some
                      [ResponsePart (Some (Blob ''TXT'' ''text/plain'')) None,
                       ResponsePart (Some (Blob ''IMG'' ''image/png'')) None])))],
      responseText = None\<rparr>"

text \<open>A response without candidates, with a text.\<close>

definition blockedResponse :: Response where
  "blockedResponse = \<lparr>candidates = None, responseText = Some ''safety policy''\<rparr>"

text \<open>A profile with a complete scan whose name, height and weight are empty.\<close>

definition namelessProfile :: Profile where
  "namelessProfile = exampleProfile\<lparr>name := [], height := [], weight := []\<rparr>"

definition namelessFaceProfile :: FaceProfile where
  "namelessFaceProfile = exampleFaceProfile\<lparr>name := [], height := [], weight := []\<rparr>"

text \<open>A record written by the version that kept a list of photos.\<close>

definition legacyProfile :: StoredProfile where
  "legacyProfile =
     \<lparr>photos = Some [exampleImage ''a''],
      stored_name = ''Alex'',
      stored_bodyScans = None,
      stored_height = ''5.8'',
      stored_weight = ''70'',
      stored_bodyType = None,
      stored_chest = None,
      stored_waist = None,
      stored_hips = None,
      stored_savedOutfits = None\<rparr>"

text \<open>The result page, with the form open and a name typed.\<close>

definition exampleResult :: "(Profile, StoredProfile) World" where
  "exampleResult =
     exampleWorld\<lparr>page := PResult, resultImage := Some ''data:image/png;base64,IMG'',
                   isSavingOutfit := True, newOutfitName := ''Summer''\<rparr>"

text \<open>A profile with two saved outfits, as an object with its array, and its result page.\<close>

definition lookbook :: "SavedOutfit list" where
  "lookbook =
     [\<lparr>outfit_id = ''outfit_3'', outfit_name = ''Winter'',
       outfit_image = ''data:image/png;base64,W''\<rparr>,
      \<lparr>outfit_id = ''outfit_5'', outfit_name = ''Spring'',
       outfit_image = ''data:image/png;base64,P''\<rparr>]"

definition lookbookProfile :: Profile where
  "lookbookProfile = exampleProfile\<lparr>savedOutfits := lookbook\<rparr>"

definition lookbookResult :: "(Profile, StoredProfile) World" where
  "lookbookResult = exampleResult\<lparr>profile := Some lookbookProfile\<rparr>"

definition lookbookObject :: ProfileObject where
  "lookbookObject =
     \<lparr>obj_name = ''Alex'',
      obj_bodyScans = \<lparr>front = Some (exampleImage ''F''), side = Some (exampleImage ''S''),
                       back' = Some (exampleImage ''B'')\<rparr>,
      obj_height = ''5.8'', obj_weight = ''70'', obj_bodyType = None,
      obj_chest = Some [], obj_waist = Some [], obj_hips = Some [],
      obj_savedOutfits = 0\<rparr>"

definition lookbookStore :: Store where
  "lookbookStore =
     \<lparr>profileAt = [1 \<mapsto> lookbookObject], arrayAt = [0 \<mapsto> lookbook], nextRef = 2\<rparr>"

text \<open>
  The result page after a save that was written: the result is marked as saved and the form
  is closed, or the page has been left.
\<close>

definition savedGate :: "('p, 'z) App_scheme \<Rightarrow> bool" where
  "savedGate w = (page w \<noteq> PResult \<or> (isOutfitSaved w \<and> \<not> isSavingOutfit w))"

section \<open>Properties of the capture session\<close>

lemma handleCapture_active: "countdown s \<noteq> None \<Longrightarrow> handleCapture s = s"
  by (simp add: handleCapture_def)

lemma handleCapture_idle:
  "countdown s = None \<Longrightarrow> intervals s = [] \<Longrightarrow>
   handleCapture s = s\<lparr>countdown := Some 3, countdownIntervalRef := Some (nextTimerId s),
                       intervals := [(nextTimerId s, 3)], nextTimerId := Suc (nextTimerId s)\<rparr>"
  by (simp add: handleCapture_def)

lemma intervalTick_running:
  "intervals s = [(i, c)] \<Longrightarrow> c \<noteq> 1 \<Longrightarrow>
   intervalTick i cam s
     = s\<lparr>intervals := [(i, c - 1)],
         countdown := (if c - 1 > 0 then Some (c - 1) else None)\<rparr>"
  by (simp add: intervalTick_def Let_def)

lemma intervalTick_last:
  "intervals s = [(i, 1)] \<Longrightarrow> countdownIntervalRef s = Some i \<Longrightarrow> i \<noteq> 0 \<Longrightarrow>
   intervalTick i cam s =
     (case cam of
        None \<Rightarrow> s\<lparr>intervals := [], countdown := None\<rparr>
      | Some frame \<Rightarrow> s\<lparr>intervals := [], countdown := None, preview := Some frame\<rparr>)"
  by (simp add: intervalTick_def Let_def clearInterval_def split: option.splits)

lemma intervalTick_none: "intervals s = [] \<Longrightarrow> intervalTick j cam s = s"
  by (simp add: intervalTick_def)

text \<open>Only one interval runs at a time, in every state a session can reach.\<close>

lemma timerInv_init: "timerInv initCapture"
  by (simp add: timerInv_def initCapture_def)

lemma timerInv_step: "timerInv s \<Longrightarrow> timerInv (captureStep a s)"
  by (cases a)
     (auto simp: timerInv_def captureStep_def handleCapture_def intervalTick_def Let_def
                 clearInterval_def handleRetake_def handleConfirm_def
           split: option.splits if_splits BodyScanStep.splits)

lemma timerInv_steps: "timerInv s \<Longrightarrow> timerInv (captureSteps as s)"
  by (induction as arbitrary: s) (simp_all add: timerInv_step)

lemma one_timer:
  "timerInv (captureSteps as initCapture)
   \<and> length (intervals (captureSteps as initCapture)) \<le> 1"
  using timerInv_steps[OF timerInv_init, of as]
  by (auto simp: timerInv_def split: option.splits)

text \<open>
  Claim C5. In a session where no countdown is shown, a capture starts a countdown that shows
  3, then 2 and 1 at the first two firings of its interval, and nothing at the third. The
  preview is untouched until the third firing, which stores the frame the camera gives, and
  clears the interval: after it no interval is left to fire, so there is no second still.
  While a number is shown, a capture changes nothing: no second interval is started.
\<close>

theorem C5_countdown:
  fixes cam1 cam2 cam3 :: "string option"
  assumes inv: "timerInv s" and idle: "countdown s = None"
  defines "i \<equiv> nextTimerId s"
  defines "s1 \<equiv> handleCapture s"
  defines "s2 \<equiv> intervalTick i cam1 s1"
  defines "s3 \<equiv> intervalTick i cam2 s2"
  defines "s4 \<equiv> intervalTick i cam3 s3"
  shows "map countdown [s1, s2, s3, s4] = [Some 3, Some 2, Some 1, None]
       \<and> map preview [s1, s2, s3] = [preview s, preview s, preview s]
       \<and> preview s4 = (case cam3 of None \<Rightarrow> preview s | Some frame \<Rightarrow> Some frame)
       \<and> map intervals [s1, s2, s3, s4] = [[(i, 3)], [(i, 2)], [(i, 1)], []]
       \<and> (\<forall>j cam. intervalTick j cam s4 = s4)
       \<and> (\<forall>t \<in> set [s1, s2, s3]. handleCapture t = t)"
proof -
  have none: "intervals s = []" and pos: "nextTimerId s \<noteq> 0"
    using inv idle by (simp_all add: timerInv_def)
  have e1: "s1 = s\<lparr>countdown := Some 3, countdownIntervalRef := Some i,
                       intervals := [(i, 3)], nextTimerId := Suc i\<rparr>"
    unfolding s1_def i_def using idle none by (rule handleCapture_idle)
  have e2: "s2 = s1\<lparr>intervals := [(i, 2)], countdown := Some 2\<rparr>"
    unfolding s2_def by (subst intervalTick_running[where c=3]) (simp_all add: e1)
  have e3: "s3 = s2\<lparr>intervals := [(i, 1)], countdown := Some 1\<rparr>"
    unfolding s3_def by (subst intervalTick_running[where c=2]) (simp_all add: e2)
  have e4: "s4 = (case cam3 of
                    None \<Rightarrow> s3\<lparr>intervals := [], countdown := None\<rparr>
                  | Some frame \<Rightarrow> s3\<lparr>intervals := [], countdown := None,
                                    preview := Some frame\<rparr>)"
    unfolding s4_def using pos by (subst intervalTick_last) (simp_all add: e3 e2 e1 i_def)
  have i4: "intervals s4 = []"
    by (simp add: e4 split: option.splits)
  show ?thesis
    using i4
    by (auto simp: e1 e2 e3 e4 intervalTick_none handleCapture_active split: option.splits)
qed

theorem C5_countdown_witness:
  "timerInv initCapture \<and> countdown initCapture = None
   \<and> map countdown
       [handleCapture initCapture,
        intervalTick 1 None (handleCapture initCapture),
        intervalTick 1 None (intervalTick 1 None (handleCapture initCapture)),
        intervalTick 1 (Some ''data:image/jpeg;base64,AA'')
          (intervalTick 1 None (intervalTick 1 None (handleCapture initCapture)))]
     = [Some 3, Some 2, Some 1, None]
   \<and> preview (intervalTick 1 (Some ''data:image/jpeg;base64,AA'')
                (intervalTick 1 None (intervalTick 1 None (handleCapture initCapture))))
     = Some ''data:image/jpeg;base64,AA''"
proof -
  have n: "nextTimerId initCapture = 1" and c: "countdown initCapture = None"
    and p: "preview initCapture = None"
    by (simp_all add: initCapture_def)
  show ?thesis
    using C5_countdown[OF timerInv_init c, where ?cam1.0 = None and ?cam2.0 = None
                       and ?cam3.0 = "Some ''data:image/jpeg;base64,AA''"]
    by (simp add: n c p timerInv_init)
qed

lemma handleConfirm_front:
  "step s = StepFront \<Longrightarrow> preview s = Some p \<Longrightarrow> p \<noteq> [] \<Longrightarrow>
   handleConfirm s
     = (s\<lparr>images := (images s)\<lparr>front := Some (capturedImage p)\<rparr>, preview := None,
          step := StepSide\<rparr>, [])"
  by (simp add: handleConfirm_def Let_def)

lemma handleConfirm_side:
  "step s = StepSide \<Longrightarrow> preview s = Some p \<Longrightarrow> p \<noteq> [] \<Longrightarrow>
   handleConfirm s
     = (s\<lparr>images := (images s)\<lparr>side := Some (capturedImage p)\<rparr>, preview := None,
          step := StepBack\<rparr>, [])"
  by (simp add: handleConfirm_def Let_def)

lemma handleConfirm_back:
  "step s = StepBack \<Longrightarrow> preview s = Some p \<Longrightarrow> p \<noteq> [] \<Longrightarrow>
   handleConfirm s
     = (s\<lparr>images := (images s)\<lparr>back' := Some (capturedImage p)\<rparr>, preview := None\<rparr>,
        [OnComplete ((images s)\<lparr>back' := Some (capturedImage p)\<rparr>), OnClose])"
  by (simp add: handleConfirm_def Let_def)

lemma handleConfirm_no_preview: "preview s = None \<Longrightarrow> handleConfirm s = (s, [])"
  by (simp add: handleConfirm_def)

text \<open>
  Claim C6. Three confirmations, at the steps front, side and back, each with a still
  waiting in the preview: whatever else happened in between that left the step and the
  stored images alone, the scan that results has the three stills in its three slots, the
  callbacks of the parent are called once, with that scan and to close, at the third
  confirmation only, and a further confirmation does nothing. A profile that is given this
  scan has a complete scan.
\<close>

theorem C6_full_scan:
  assumes s0: "step s0 = StepFront" "preview s0 = Some p1" "p1 \<noteq> []"
    and t1: "step t1 = step (fst (handleConfirm s0))"
            "images t1 = images (fst (handleConfirm s0))"
            "preview t1 = Some p2" "p2 \<noteq> []"
    and t2: "step t2 = step (fst (handleConfirm t1))"
            "images t2 = images (fst (handleConfirm t1))"
            "preview t2 = Some p3" "p3 \<noteq> []"
  shows "snd (handleConfirm s0) @ snd (handleConfirm t1) @ snd (handleConfirm t2)
           = [OnComplete \<lparr>front = Some (capturedImage p1), side = Some (capturedImage p2),
                          back' = Some (capturedImage p3)\<rparr>, OnClose]
       \<and> images (fst (handleConfirm t2))
           = \<lparr>front = Some (capturedImage p1), side = Some (capturedImage p2),
              back' = Some (capturedImage p3)\<rparr>
       \<and> isScanComplete (Some (p\<lparr>bodyScans := images (fst (handleConfirm t2))\<rparr>))
       \<and> handleConfirm (fst (handleConfirm t2)) = (fst (handleConfirm t2), [])"
proof -
  note c0 = handleConfirm_front[OF s0]
  have st1: "step t1 = StepSide"
    using t1(1) by (simp add: c0)
  note c1 = handleConfirm_side[OF st1 t1(3,4)]
  have st2: "step t2 = StepBack"
    using t2(1) by (simp add: c1)
  note c2 = handleConfirm_back[OF st2 t2(3,4)]
  have i1: "images t1 = (images s0)\<lparr>front := Some (capturedImage p1)\<rparr>"
    using t1(2) by (simp add: c0)
  have i2: "images t2 = (images s0)\<lparr>front := Some (capturedImage p1),
                                     side := Some (capturedImage p2)\<rparr>"
    using t2(2) by (simp add: c1 i1)
  have full: "(images t2)\<lparr>back' := Some (capturedImage p3)\<rparr>
      = \<lparr>front = Some (capturedImage p1), side = Some (capturedImage p2),
         back' = Some (capturedImage p3)\<rparr>"
    by (simp add: i2)
  show ?thesis
    by (simp add: c0 c1 c2 full handleConfirm_no_preview isScanComplete_def)
qed

theorem C6_full_scan_witness:
  "snd (handleConfirm (initCapture\<lparr>preview := Some ''data:image/jpeg;base64,AA''\<rparr>))
   @ snd (handleConfirm ((fst (handleConfirm (initCapture\<lparr>preview := Some ''data:image/jpeg;base64,AA''\<rparr>)))
                          \<lparr>preview := Some ''data:image/jpeg;base64,BB''\<rparr>))
   @ snd (handleConfirm ((fst (handleConfirm ((fst (handleConfirm (initCapture\<lparr>preview := Some ''data:image/jpeg;base64,AA''\<rparr>)))
                          \<lparr>preview := Some ''data:image/jpeg;base64,BB''\<rparr>)))
                          \<lparr>preview := Some ''data:image/jpeg;base64,CC''\<rparr>))
   = [OnComplete \<lparr>front = Some \<lparr>b64 = Some ''AA'', mimeType = ''image/jpeg''\<rparr>,
                  side = Some \<lparr>b64 = Some ''BB'', mimeType = ''image/jpeg''\<rparr>,
                  back' = Some \<lparr>b64 = Some ''CC'', mimeType = ''image/jpeg''\<rparr>\<rparr>,
      OnClose]"
proof -
  have c: "capturedImage ''data:image/jpeg;base64,AA'' = \<lparr>b64 = Some ''AA'', mimeType = ''image/jpeg''\<rparr>"
    "capturedImage ''data:image/jpeg;base64,BB'' = \<lparr>b64 = Some ''BB'', mimeType = ''image/jpeg''\<rparr>"
    "capturedImage ''data:image/jpeg;base64,CC'' = \<lparr>b64 = Some ''CC'', mimeType = ''image/jpeg''\<rparr>"
    by (simp_all add: capturedImage_def)
  have f: "step initCapture = StepFront"
    by (simp add: initCapture_def)
  show ?thesis
    using C6_full_scan[where ?s0.0 = "initCapture\<lparr>preview := Some ''data:image/jpeg;base64,AA''\<rparr>"
        and ?p1.0 = "''data:image/jpeg;base64,AA''"
        and ?t1.0 = "(fst (handleConfirm (initCapture\<lparr>preview := Some ''data:image/jpeg;base64,AA''\<rparr>)))
                          \<lparr>preview := Some ''data:image/jpeg;base64,BB''\<rparr>"
        and ?p2.0 = "''data:image/jpeg;base64,BB''"
        and ?t2.0 = "(fst (handleConfirm ((fst (handleConfirm (initCapture\<lparr>preview := Some ''data:image/jpeg;base64,AA''\<rparr>)))
                          \<lparr>preview := Some ''data:image/jpeg;base64,BB''\<rparr>)))
                          \<lparr>preview := Some ''data:image/jpeg;base64,CC''\<rparr>"
        and ?p3.0 = "''data:image/jpeg;base64,CC''" and p = exampleProfile]
    by (simp add: c f)
qed

text \<open>
  Claim C7. For each of the eight ways to fill or leave empty the three slots of a scan,
  the scan of a profile is complete exactly when none of the three is empty; and saving the
  profile page goes through exactly when, besides, the name, the height and the weight are
  not empty.
\<close>

theorem C7_scan_completeness:
  "isScanComplete (Some (p\<lparr>bodyScans := \<lparr>front = f, side = s, back' = b\<rparr>\<rparr>))
     = (f \<noteq> None \<and> s \<noteq> None \<and> b \<noteq> None)
   \<and> (snd (handleSave (pp\<lparr>draft := (draft pp)\<lparr>bodyScans := \<lparr>front = f, side = s, back' = b\<rparr>\<rparr>\<rparr>))
        \<noteq> [])
     = (f \<noteq> None \<and> s \<noteq> None \<and> b \<noteq> None
        \<and> name (draft pp) \<noteq> [] \<and> height (draft pp) \<noteq> [] \<and> weight (draft pp) \<noteq> [])"
  by (auto simp: isScanComplete_def handleSave_def)

theorem C7_scan_completeness_witness:
  "\<not> isScanComplete (Some (exampleProfile\<lparr>bodyScans :=
        \<lparr>front = Some (exampleImage ''F''), side = None, back' = Some (exampleImage ''B'')\<rparr>\<rparr>))
   \<and> isScanComplete (Some (exampleProfile\<lparr>bodyScans :=
        \<lparr>front = Some (exampleImage ''F''), side = Some (exampleImage ''S''),
         back' = Some (exampleImage ''B'')\<rparr>\<rparr>))"
  using C7_scan_completeness[where p = exampleProfile and f = "Some (exampleImage ''F'')"
          and s = None and b = "Some (exampleImage ''B'')" and pp = "mountProfilePage None"]
        C7_scan_completeness[where p = exampleProfile and f = "Some (exampleImage ''F'')"
          and s = "Some (exampleImage ''S'')" and b = "Some (exampleImage ''B'')"
          and pp = "mountProfilePage None"]
  by simp

section \<open>Properties of the stored profile\<close>

lemma nth_opt_eq: "nth_opt xs i = (if i < length xs then Some (xs ! i) else None)"
  by (induction xs i rule: nth_opt.induct) simp_all

lemma migrate_idem: "migrate (migrate r) = migrate r"
  by (simp add: migrate_def Let_def split: option.splits)

lemma migrate_toStored: "migrate (toStored p) = toStored p"
  by (simp add: migrate_def toStored_def)

lemma asProfile_toStored: "asProfile (toStored p) = p"
  by (simp add: asProfile_def toStored_def)

text \<open>
  Claim C3. The migration that the load applies to the stored record: a record with
  \<^verbatim>\<open>photos\<close> gets the scan whose front, side and back are the first, second and third photo,
  empty where the list is too short, and loses \<^verbatim>\<open>photos\<close>; a record without
  \<^verbatim>\<open>savedOutfits\<close> gets the empty list; a record that has the two fields and no
  \<^verbatim>\<open>photos\<close>, as every record written by this version, is left as it is; migrating twice
  is migrating once; and the profile the application holds after the load is the migrated
  record.
\<close>

theorem C3_migration:
  "(photos r = Some ps \<longrightarrow>
      stored_bodyScans (migrate r)
        = Some \<lparr>front = (if 0 < length ps then Some (ps ! 0) else None),
                side = (if 1 < length ps then Some (ps ! 1) else None),
                back' = (if 2 < length ps then Some (ps ! 2) else None)\<rparr>
      \<and> photos (migrate r) = None)
   \<and> (stored_savedOutfits r = None \<longrightarrow> stored_savedOutfits (migrate r) = Some [])
   \<and> (photos r = None \<and> stored_bodyScans r \<noteq> None \<and> stored_savedOutfits r \<noteq> None
        \<longrightarrow> migrate r = r)
   \<and> migrate (toStored p) = toStored p
   \<and> migrate (migrate r) = migrate r
   \<and> (localStorage w = Some r \<longrightarrow> profile (loadProfile now w) = Some (asProfile (migrate r)))"
  apply (intro conjI impI)
        apply (auto simp add: migrate_def Let_def nth_opt_eq split: option.splits)[1]
       apply (simp add: migrate_def Let_def split: option.splits)
      apply (simp add: migrate_def Let_def split: option.splits)
     apply (auto simp add: migrate_def Let_def split: option.splits)[1]
    apply (rule migrate_toStored)
   apply (rule migrate_idem)
  apply (simp add: loadProfile_def changePage_def)
  done

theorem C3_migration_witness:
  "stored_bodyScans (migrate legacyProfile)
     = Some \<lparr>front = Some (exampleImage ''a''), side = None, back' = None\<rparr>
   \<and> photos (migrate legacyProfile) = None
   \<and> stored_savedOutfits (migrate legacyProfile) = Some []
   \<and> migrate (toStored exampleProfile) = toStored exampleProfile
   \<and> profile (loadProfile 5 (exampleWorld\<lparr>localStorage := Some legacyProfile\<rparr>))
     = Some (asProfile (migrate legacyProfile))"
proof -
  have l: "photos legacyProfile = Some [exampleImage ''a'']"
    "stored_savedOutfits legacyProfile = None"
    by (simp_all add: legacyProfile_def)
  have c: "photos (toStored exampleProfile) = None"
    "stored_bodyScans (toStored exampleProfile) \<noteq> None"
    "stored_savedOutfits (toStored exampleProfile) \<noteq> None"
    by (simp_all add: toStored_def)
  show ?thesis
    using C3_migration[where r = legacyProfile and ps = "[exampleImage ''a'']"
            and p = exampleProfile and now = 5
            and w = "exampleWorld\<lparr>localStorage := Some legacyProfile\<rparr>"]
          C3_migration[where r = "toStored exampleProfile" and ps = "[]"
            and p = exampleProfile and now = 5 and w = exampleWorld]
    by (simp add: l c)
qed

lemma filter_fresh:
  "outfit_id x \<notin> outfit_id ` set xs \<Longrightarrow>
   filter (\<lambda>outfit. outfit_id outfit \<noteq> outfit_id x) xs = xs"
  by (induction xs) auto

lemma show_nat_digit: "n < 10 \<Longrightarrow> show_nat n = [digit n]"
  by (simp add: show_nat.simps)

lemma trim_Summer: "trim ''Summer'' = ''Summer''"
  by (simp add: trim_def isSpace_def)

lemma readProfile_Some:
  "readProfile st r = Some p \<Longrightarrow> profileAt st r = Some obj \<Longrightarrow>
   arrayAt st (obj_savedOutfits obj) = Some (savedOutfits p)
   \<and> p = \<lparr>name = obj_name obj, bodyScans = obj_bodyScans obj,
            height = obj_height obj, weight = obj_weight obj,
            bodyType = obj_bodyType obj, chest = obj_chest obj,
            waist = obj_waist obj, hips = obj_hips obj,
            savedOutfits = savedOutfits p\<rparr>"
  by (auto simp: readProfile_def split: option.splits)

lemma updatedProfile_store:
  assumes rd: "readProfile st r = Some p" and obj: "profileAt st r = Some obj"
    and below: "r < nextRef st" "obj_savedOutfits obj < nextRef st"
  shows "updatedProfile x r st
     = Some (st\<lparr>arrayAt := (arrayAt st)(nextRef st \<mapsto> savedOutfits p @ [x]),
                 nextRef := Suc (nextRef st),
                 profileAt := (profileAt st)(Suc (nextRef st) \<mapsto> obj\<lparr>obj_savedOutfits := nextRef st\<rparr>),
                 nextRef := Suc (Suc (nextRef st))\<rparr>, Suc (nextRef st))"
  using readProfile_Some[OF rd obj] obj
  by (simp add: updatedProfile_def allocArray_def allocProfile_def Let_def)

lemma updatedProfile_frame:
  assumes rd: "readProfile st r = Some p" and obj: "profileAt st r = Some obj"
    and below: "r < nextRef st" "obj_savedOutfits obj < nextRef st"
    and up: "updatedProfile x r st = Some (st1, r1)"
  shows "sameObjects st st1 \<and> readProfile st1 r = Some p
       \<and> readProfile st1 r1 = Some (p\<lparr>savedOutfits := savedOutfits p @ [x]\<rparr>)
       \<and> profileAt st1 r1 = Some (obj\<lparr>obj_savedOutfits := nextRef st\<rparr>)
       \<and> r1 < nextRef st1 \<and> nextRef st < nextRef st1 \<and> nextRef st \<le> nextRef st1"
proof -
  note e = up[unfolded updatedProfile_store[OF rd obj below]]
  have p: "p = \<lparr>name = obj_name obj, bodyScans = obj_bodyScans obj,
            height = obj_height obj, weight = obj_weight obj,
            bodyType = obj_bodyType obj, chest = obj_chest obj,
            waist = obj_waist obj, hips = obj_hips obj,
            savedOutfits = savedOutfits p\<rparr>"
    and a: "arrayAt st (obj_savedOutfits obj) = Some (savedOutfits p)"
    using readProfile_Some[OF rd obj] by simp_all
  have s: "sameObjects st st1"
    using e by (auto simp: sameObjects_def)
  have r0: "readProfile st1 r = Some p"
    using e below obj a rd by (auto simp: readProfile_def)
  have r1: "readProfile st1 r1 = Some (p\<lparr>savedOutfits := savedOutfits p @ [x]\<rparr>)"
    using e by (subst p) (auto simp: readProfile_def)
  show ?thesis
    using s r0 r1 e by auto
qed


lemma deletedProfile_store:
  assumes rd: "readProfile st r = Some p" and obj: "profileAt st r = Some obj"
  shows "deletedProfile i r st
     = Some (st\<lparr>arrayAt := (arrayAt st)(nextRef st \<mapsto>
                      filter (\<lambda>outfit. outfit_id outfit \<noteq> i) (savedOutfits p)),
                 nextRef := Suc (nextRef st),
                 profileAt := (profileAt st)(Suc (nextRef st) \<mapsto>
                      (pageVariables obj)\<lparr>obj_savedOutfits := nextRef st\<rparr>),
                 nextRef := Suc (Suc (nextRef st))\<rparr>, Suc (nextRef st))"
  using readProfile_Some[OF rd obj] obj
  by (simp add: deletedProfile_def allocArray_def allocProfile_def Let_def pageVariables_def)

lemma sameObjects_read:
  "sameObjects st st' \<Longrightarrow> readProfile st r = Some p \<Longrightarrow> profileAt st r = Some obj \<Longrightarrow>
   r < nextRef st \<Longrightarrow> obj_savedOutfits obj < nextRef st \<Longrightarrow> readProfile st' r = Some p"
  by (auto simp: sameObjects_def readProfile_def split: option.splits)

lemma deletedProfile_frame:
  assumes rd: "readProfile st r = Some p" and obj: "profileAt st r = Some obj"
    and del: "deletedProfile i r st = Some (st2, r2)"
  shows "sameObjects st st2
       \<and> readProfile st2 r2
           = Some ((draft (mountProfilePage (Some p)))
                     \<lparr>savedOutfits := filter (\<lambda>outfit. outfit_id outfit \<noteq> i) (savedOutfits p)\<rparr>)"
proof -
  note e = del[unfolded deletedProfile_store[OF rd obj]]
  have p: "p = \<lparr>name = obj_name obj, bodyScans = obj_bodyScans obj,
            height = obj_height obj, weight = obj_weight obj,
            bodyType = obj_bodyType obj, chest = obj_chest obj,
            waist = obj_waist obj, hips = obj_hips obj,
            savedOutfits = savedOutfits p\<rparr>"
    using readProfile_Some[OF rd obj] by simp
  have s: "sameObjects st st2"
    using e by (auto simp: sameObjects_def)
  have r2: "readProfile st2 r2
           = Some ((draft (mountProfilePage (Some p)))
                     \<lparr>savedOutfits := filter (\<lambda>outfit. outfit_id outfit \<noteq> i) (savedOutfits p)\<rparr>)"
    using e by (subst (1 2) p) (auto simp: readProfile_def mountProfilePage_def pageVariables_def)
  show ?thesis
    using s r2 by simp
qed

text \<open>
  Claim C8. For a profile and an outfit whose id is not among the saved outfits of the
  profile: saving the outfit gives the profile with the outfit added to the list, and
  deleting the outfit by its id, on the profile page opened on that profile, hands to
  \<^verbatim>\<open>onSave\<close> a profile whose saved outfits are the list before the two steps, in the same
  order; this is the profile the application then holds. Neither step writes to an object it
  is given: with the profile as an object of a store, every object and array of the store
  is as it was after each step, the reference of the input profile still stands for the
  same profile, and the results are the new objects.
\<close>

theorem C8_add_then_remove:
  fixes p :: Profile and outfit :: SavedOutfit and writeOk :: bool
  assumes fresh: "outfit_id outfit \<notin> outfit_id ` set (savedOutfits p)"
    and w: "profile w = Some p" "resultImage w = Some (outfit_image outfit)"
           "newOutfitName w = outfit_name outfit"
    and ok: "outfit_image outfit \<noteq> []" "trim (outfit_name outfit) \<noteq> []"
    and oid: "outfit_id outfit = ''outfit_'' @ show_nat now"
    and st: "readProfile st r = Some p" "profileAt st r = Some obj"
            "r < nextRef st" "obj_savedOutfits obj < nextRef st"
  defines "w1 \<equiv> handleSaveOutfit now writeOk w"
  defines "pp \<equiv> mountProfilePage (profile w1)"
  shows "profile w1 = Some (p\<lparr>savedOutfits := savedOutfits p @ [outfit]\<rparr>)
       \<and> snd (handleDeleteOutfit (outfit_id outfit) pp)
           = [OnSave ((draft pp)\<lparr>savedOutfits := savedOutfits p\<rparr>)]
       \<and> savedOutfits (draft (fst (handleDeleteOutfit (outfit_id outfit) pp))) = savedOutfits p
       \<and> profile (handleSaveProfile writeOk' ((draft pp)\<lparr>savedOutfits := savedOutfits p\<rparr>) w1)
           = Some ((draft pp)\<lparr>savedOutfits := savedOutfits p\<rparr>)
       \<and> name (draft pp) = name p \<and> bodyScans (draft pp) = bodyScans p
       \<and> height (draft pp) = height p \<and> weight (draft pp) = weight p
       \<and> (case updatedProfile outfit r st of
            None \<Rightarrow> False
          | Some (st1, r1) \<Rightarrow>
              sameObjects st st1 \<and> readProfile st1 r = Some p
              \<and> readProfile st1 r1 = profile w1
              \<and> (case deletedProfile (outfit_id outfit) r1 st1 of
                    None \<Rightarrow> False
                  | Some (st2, r2) \<Rightarrow>
                      sameObjects st1 st2 \<and> readProfile st2 r = Some p
                      \<and> readProfile st2 r1 = profile w1
                      \<and> readProfile st2 r2
                          = Some ((draft pp)\<lparr>savedOutfits := savedOutfits p\<rparr>)))"
proof -
  have p1: "profile w1 = Some (p\<lparr>savedOutfits := savedOutfits p @ [outfit]\<rparr>)"
    unfolding w1_def using w ok oid by (cases outfit) (simp add: handleSaveOutfit_def Let_def)
  have so: "savedOutfits (draft pp) = savedOutfits p @ [outfit]"
    by (simp add: pp_def p1 mountProfilePage_def)
  have d: "name (draft pp) = name p \<and> bodyScans (draft pp) = bodyScans p
       \<and> height (draft pp) = height p \<and> weight (draft pp) = weight p"
    by (simp add: pp_def p1 mountProfilePage_def)
  have v: "snd (handleDeleteOutfit (outfit_id outfit) pp)
           = [OnSave ((draft pp)\<lparr>savedOutfits := savedOutfits p\<rparr>)]
       \<and> savedOutfits (draft (fst (handleDeleteOutfit (outfit_id outfit) pp))) = savedOutfits p
       \<and> profile (handleSaveProfile writeOk' ((draft pp)\<lparr>savedOutfits := savedOutfits p\<rparr>) w1)
           = Some ((draft pp)\<lparr>savedOutfits := savedOutfits p\<rparr>)"
    by (simp add: handleDeleteOutfit_def Let_def so filter_fresh[OF fresh] handleSaveProfile_def)
  obtain st1 r1 where u: "updatedProfile outfit r st = Some (st1, r1)"
    using updatedProfile_store[OF st, of outfit] by simp
  note f1 = updatedProfile_frame[OF st u]
  have rd1: "readProfile st1 r1 = Some (p\<lparr>savedOutfits := savedOutfits p @ [outfit]\<rparr>)"
    and o1: "profileAt st1 r1 = Some (obj\<lparr>obj_savedOutfits := nextRef st\<rparr>)"
    using f1 by simp_all
  obtain st2 r2 where dl: "deletedProfile (outfit_id outfit) r1 st1 = Some (st2, r2)"
    using deletedProfile_store[OF rd1 o1, of "outfit_id outfit"] by simp
  note f2 = deletedProfile_frame[OF rd1 o1 dl]
  have same2: "sameObjects st1 st2"
    using f2 by simp
  have keep0: "readProfile st2 r = Some p"
  proof (rule sameObjects_read[OF same2 _ _ _ _])
    show "readProfile st1 r = Some p" using f1 by simp
    show "profileAt st1 r = Some obj"
      using f1 st by (auto simp: sameObjects_def)
    show "r < nextRef st1" using f1 st(3) by simp
    show "obj_savedOutfits obj < nextRef st1" using f1 st(4) by simp
  qed
  have keep1: "readProfile st2 r1 = profile w1"
    unfolding p1
  proof (rule sameObjects_read[OF same2 rd1 o1])
    show "r1 < nextRef st1" using f1 by simp
    show "obj_savedOutfits (obj\<lparr>obj_savedOutfits := nextRef st\<rparr>) < nextRef st1"
      using f1 by simp
  qed
  have res: "readProfile st2 r2 = Some ((draft pp)\<lparr>savedOutfits := savedOutfits p\<rparr>)"
    using f2 by (simp add: pp_def p1 filter_fresh[OF fresh])
  show ?thesis
    using p1 d v f1 same2 keep0 keep1 res by (simp add: u dl)
qed


theorem C8_add_then_remove_witness:
  "profile (handleSaveOutfit 7 True lookbookResult)
     = Some (lookbookProfile\<lparr>savedOutfits := savedOutfits lookbookProfile
               @ [\<lparr>outfit_id = ''outfit_7'', outfit_name = ''Summer'',
                   outfit_image = ''data:image/png;base64,IMG''\<rparr>]\<rparr>)
   \<and> savedOutfits (draft (fst (handleDeleteOutfit ''outfit_7''
        (mountProfilePage (profile (handleSaveOutfit 7 True lookbookResult))))))
     = [\<lparr>outfit_id = ''outfit_3'', outfit_name = ''Winter'',
         outfit_image = ''data:image/png;base64,W''\<rparr>,
        \<lparr>outfit_id = ''outfit_5'', outfit_name = ''Spring'',
         outfit_image = ''data:image/png;base64,P''\<rparr>]
   \<and> (case updatedProfile \<lparr>outfit_id = ''outfit_7'', outfit_name = ''Summer'',
                             outfit_image = ''data:image/png;base64,IMG''\<rparr> 1 lookbookStore of
        None \<Rightarrow> False
      | Some (st1, r1) \<Rightarrow>
          sameObjects lookbookStore st1 \<and> readProfile st1 1 = Some lookbookProfile
          \<and> readProfile st1 r1 = profile (handleSaveOutfit 7 True lookbookResult)
          \<and> (case deletedProfile
                     (outfit_id \<lparr>outfit_id = ''outfit_7'', outfit_name = ''Summer'',
                                 outfit_image = ''data:image/png;base64,IMG''\<rparr>) r1 st1 of
                None \<Rightarrow> False
              | Some (st2, r2) \<Rightarrow>
                  sameObjects st1 st2 \<and> readProfile st2 1 = Some lookbookProfile
                  \<and> readProfile st2 r1 = profile (handleSaveOutfit 7 True lookbookResult)
                  \<and> readProfile st2 r2
                      = Some ((draft (mountProfilePage
                                       (profile (handleSaveOutfit 7 True lookbookResult))))
                                \<lparr>savedOutfits := savedOutfits lookbookProfile\<rparr>)))"
proof -
  have e: "profile lookbookResult = Some lookbookProfile"
    "resultImage lookbookResult
       = Some (outfit_image \<lparr>outfit_id = ''outfit_7'', outfit_name = ''Summer'',
                             outfit_image = ''data:image/png;base64,IMG''\<rparr>)"
    "newOutfitName lookbookResult
       = outfit_name \<lparr>outfit_id = ''outfit_7'', outfit_name = ''Summer'',
                      outfit_image = ''data:image/png;base64,IMG''\<rparr>"
    by (simp_all add: lookbookResult_def exampleResult_def exampleWorld_def)
  have l: "savedOutfits lookbookProfile = lookbook"
    by (simp add: lookbookProfile_def)
  have f: "outfit_id \<lparr>outfit_id = ''outfit_7'', outfit_name = ''Summer'',
                       outfit_image = ''data:image/png;base64,IMG''\<rparr>
             \<notin> outfit_id ` set (savedOutfits lookbookProfile)"
    by (simp add: l lookbook_def)
  have k: "outfit_image \<lparr>outfit_id = ''outfit_7'', outfit_name = ''Summer'',
                          outfit_image = ''data:image/png;base64,IMG''\<rparr> \<noteq> []"
    "trim (outfit_name \<lparr>outfit_id = ''outfit_7'', outfit_name = ''Summer'',
                         outfit_image = ''data:image/png;base64,IMG''\<rparr>) \<noteq> []"
    "outfit_id \<lparr>outfit_id = ''outfit_7'', outfit_name = ''Summer'',
                 outfit_image = ''data:image/png;base64,IMG''\<rparr> = ''outfit_'' @ show_nat 7"
    by (simp_all add: trim_Summer show_nat_digit digit_def)
  have s: "readProfile lookbookStore 1 = Some lookbookProfile"
    "profileAt lookbookStore 1 = Some lookbookObject"
    "1 < nextRef lookbookStore" "obj_savedOutfits lookbookObject < nextRef lookbookStore"
    by (simp_all add: readProfile_def lookbookStore_def lookbookObject_def lookbookProfile_def
                      exampleProfile_def)
  note h = C8_add_then_remove[OF f e k s, where writeOk = True and writeOk' = True]
  have a: "profile (handleSaveOutfit 7 True lookbookResult)
     = Some (lookbookProfile\<lparr>savedOutfits := savedOutfits lookbookProfile
               @ [\<lparr>outfit_id = ''outfit_7'', outfit_name = ''Summer'',
                   outfit_image = ''data:image/png;base64,IMG''\<rparr>]\<rparr>)"
    by (rule h[THEN conjunct1])
  have b: "savedOutfits (draft (fst (handleDeleteOutfit
             (outfit_id \<lparr>outfit_id = ''outfit_7'', outfit_name = ''Summer'',
                          outfit_image = ''data:image/png;base64,IMG''\<rparr>)
             (mountProfilePage (profile (handleSaveOutfit 7 True lookbookResult))))))
     = savedOutfits lookbookProfile"
    by (rule h[THEN conjunct2, THEN conjunct2, THEN conjunct1])
  note c = h[THEN conjunct2, THEN conjunct2, THEN conjunct2, THEN conjunct2, THEN conjunct2,
             THEN conjunct2, THEN conjunct2, THEN conjunct2]
  have b': "savedOutfits (draft (fst (handleDeleteOutfit ''outfit_7''
        (mountProfilePage (profile (handleSaveOutfit 7 True lookbookResult))))))
     = [\<lparr>outfit_id = ''outfit_3'', outfit_name = ''Winter'',
         outfit_image = ''data:image/png;base64,W''\<rparr>,
        \<lparr>outfit_id = ''outfit_5'', outfit_name = ''Spring'',
         outfit_image = ''data:image/png;base64,P''\<rparr>]"
    using b by (simp add: l lookbook_def)
  show ?thesis
    by (intro conjI) (rule a, rule b', rule c)
qed


section \<open>Properties of the generation\<close>

lemma handleGenerate_no_input:
  "clothingImage w = None \<or> profile w = None \<Longrightarrow>
   handleGenerate env w
     = w\<lparr>error := Some ''Please upload a clothing item and ensure your profile is complete.''\<rparr>"
  by (auto simp: handleGenerate_def split: option.splits)

lemma handleGenerate_no_scan:
  "clothingImage w \<noteq> None \<Longrightarrow> profile w \<noteq> None \<Longrightarrow> \<not> isScanComplete (profile w) \<Longrightarrow>
   handleGenerate env w
     = changePage (startTime env) PProfile
         (w\<lparr>error := Some ''Please complete the 3-angle body scan in your profile for best results.''\<rparr>)"
  by (auto simp: handleGenerate_def isScanComplete_def split: option.splits)

lemma handleGenerate_part0_rejects:
  "clothingImage w = None \<or> \<not> isScanComplete (profile w) \<Longrightarrow>
   handleGenerate_part0 env w
     = w\<lparr>error := Some ''Please complete your profile, including the 3-angle body scan, and upload a clothing image first.''\<rparr>"
  by (auto simp: handleGenerate_part0_def isScanComplete_def split: option.splits)

text \<open>
  Claim C1, as the code has it. In \<^verbatim>\<open>src/index.tsx\<close>: without a clothing image or without a
  profile, the generation sets its message, sends no request and leaves the page as it is;
  with both, and a profile whose scan is not complete, it sets its message, sends no request
  and goes to the profile page. In \<^verbatim>\<open>src/unnamed/part_000\<close>: without a clothing image, without
  a profile or with a scan that is not complete, it sets its message, sends no request and
  leaves the page as it is.
\<close>

theorem C1_validation:
  "(clothingImage w = None \<or> profile w = None \<longrightarrow>
      calls (handleGenerate env w) = calls w
      \<and> page (handleGenerate env w) = page w
      \<and> error (handleGenerate env w)
          = Some ''Please upload a clothing item and ensure your profile is complete.'')
   \<and> (clothingImage w \<noteq> None \<and> profile w \<noteq> None \<and> \<not> isScanComplete (profile w) \<longrightarrow>
      calls (handleGenerate env w) = calls w
      \<and> page (handleGenerate env w) = PProfile
      \<and> error (handleGenerate env w)
          = Some ''Please complete the 3-angle body scan in your profile for best results.'')
   \<and> (clothingImage v = None \<or> \<not> isScanComplete (profile v) \<longrightarrow>
      calls (handleGenerate_part0 env v) = calls v
      \<and> page (handleGenerate_part0 env v) = page v
      \<and> error (handleGenerate_part0 env v)
          = Some ''Please complete your profile, including the 3-angle body scan, and upload a clothing image first.'')"
  apply (intro conjI impI)
          apply (simp_all add: handleGenerate_no_input handleGenerate_no_scan
                               handleGenerate_part0_rejects changePage_def)
  done

theorem C1_validation_witness:
  "calls (handleGenerate (exampleEnv refusal) (exampleWorld\<lparr>clothingImage := None\<rparr>)) = []
   \<and> page (handleGenerate (exampleEnv refusal) (exampleWorld\<lparr>clothingImage := None\<rparr>)) = PCreator
   \<and> calls (handleGenerate (exampleEnv refusal)
        (exampleWorld\<lparr>profile := Some (exampleProfile\<lparr>bodyScans :=
                         \<lparr>front = Some (exampleImage ''F''), side = None, back' = None\<rparr>\<rparr>)\<rparr>)) = []
   \<and> page (handleGenerate (exampleEnv refusal)
        (exampleWorld\<lparr>profile := Some (exampleProfile\<lparr>bodyScans :=
                         \<lparr>front = Some (exampleImage ''F''), side = None, back' = None\<rparr>\<rparr>)\<rparr>)) = PProfile
   \<and> calls (handleGenerate_part0 (exampleEnv refusal) (exampleFaceWorld\<lparr>clothingImage := None\<rparr>)) = []
   \<and> page (handleGenerate_part0 (exampleEnv refusal) (exampleFaceWorld\<lparr>clothingImage := None\<rparr>))
     = PCreator"
  using C1_validation[where w = "exampleWorld\<lparr>clothingImage := None\<rparr>"
          and env = "exampleEnv refusal" and v = "exampleFaceWorld\<lparr>clothingImage := None\<rparr>"]
        C1_validation[where w = "exampleWorld\<lparr>profile := Some (exampleProfile\<lparr>bodyScans :=
                         \<lparr>front = Some (exampleImage ''F''), side = None, back' = None\<rparr>\<rparr>)\<rparr>"
          and env = "exampleEnv refusal" and v = "exampleFaceWorld\<lparr>clothingImage := None\<rparr>"]
  by (simp add: exampleWorld_def exampleFaceWorld_def isScanComplete_def)

text \<open>
  Claim C1 as stated fails twice. In \<^verbatim>\<open>src/index.tsx\<close>, on the creator page, with a
  clothing image and a profile whose side and back scans are missing, the generation leaves
  the creator page for the profile page. And in both files a profile with a complete scan
  and an empty name, height and weight, which the profile page refuses to save, passes: the
  request is sent.
\<close>

theorem C1_counterexample:
  "\<not> isScanComplete (Some (exampleProfile\<lparr>bodyScans :=
        \<lparr>front = Some (exampleImage ''F''), side = None, back' = None\<rparr>\<rparr>))
   \<and> page (exampleWorld\<lparr>profile := Some (exampleProfile\<lparr>bodyScans :=
        \<lparr>front = Some (exampleImage ''F''), side = None, back' = None\<rparr>\<rparr>)\<rparr>) = PCreator
   \<and> page (handleGenerate (exampleEnv refusal)
       (exampleWorld\<lparr>profile := Some (exampleProfile\<lparr>bodyScans :=
          \<lparr>front = Some (exampleImage ''F''), side = None, back' = None\<rparr>\<rparr>)\<rparr>)) = PProfile
   \<and> name namelessProfile = [] \<and> height namelessProfile = [] \<and> weight namelessProfile = []
   \<and> snd (handleSave (mountProfilePage (Some namelessProfile))) = []
   \<and> length (calls (handleGenerate (exampleEnv imageResponse)
                (exampleWorld\<lparr>profile := Some namelessProfile\<rparr>))) = 1
   \<and> page (handleGenerate (exampleEnv imageResponse)
                (exampleWorld\<lparr>profile := Some namelessProfile\<rparr>)) = PResult
   \<and> length (calls (handleGenerate_part0 (exampleEnv imageResponse)
                (exampleFaceWorld\<lparr>profile := Some namelessFaceProfile\<rparr>))) = 1
   \<and> page (handleGenerate_part0 (exampleEnv imageResponse)
                (exampleFaceWorld\<lparr>profile := Some namelessFaceProfile\<rparr>)) = PResult"
proof -
  have a: "\<not> isScanComplete (Some (exampleProfile\<lparr>bodyScans :=
        \<lparr>front = Some (exampleImage ''F''), side = None, back' = None\<rparr>\<rparr>))
   \<and> page (exampleWorld\<lparr>profile := Some (exampleProfile\<lparr>bodyScans :=
        \<lparr>front = Some (exampleImage ''F''), side = None, back' = None\<rparr>\<rparr>)\<rparr>) = PCreator
   \<and> page (handleGenerate (exampleEnv refusal)
       (exampleWorld\<lparr>profile := Some (exampleProfile\<lparr>bodyScans :=
          \<lparr>front = Some (exampleImage ''F''), side = None, back' = None\<rparr>\<rparr>)\<rparr>)) = PProfile"
    by (simp add: handleGenerate_def exampleWorld_def changePage_def isScanComplete_def)
  have b: "name namelessProfile = [] \<and> height namelessProfile = [] \<and> weight namelessProfile = []
   \<and> snd (handleSave (mountProfilePage (Some namelessProfile))) = []"
    by (simp add: namelessProfile_def handleSave_def mountProfilePage_def)
  have c: "length (calls (handleGenerate (exampleEnv imageResponse)
                (exampleWorld\<lparr>profile := Some namelessProfile\<rparr>))) = 1
   \<and> page (handleGenerate (exampleEnv imageResponse)
                (exampleWorld\<lparr>profile := Some namelessProfile\<rparr>)) = PResult"
    by (simp add: handleGenerate_def exampleWorld_def namelessProfile_def exampleProfile_def
          exampleEnv_def imageResponse_def Let_def handleResponse_def imagePart_def
          firstCandidateParts_def changePage_def)
  have d: "length (calls (handleGenerate_part0 (exampleEnv imageResponse)
                (exampleFaceWorld\<lparr>profile := Some namelessFaceProfile\<rparr>))) = 1
   \<and> page (handleGenerate_part0 (exampleEnv imageResponse)
                (exampleFaceWorld\<lparr>profile := Some namelessFaceProfile\<rparr>)) = PResult"
    by (simp add: handleGenerate_part0_def exampleFaceWorld_def namelessFaceProfile_def
          exampleFaceProfile_def exampleEnv_def imageResponse_def Let_def strictParts_def)
  show ?thesis
    using a b c d by simp
qed

lemma handleGenerate_issued:
  assumes "clothingImage w = Some clothing" "profile w = Some p"
    "front (bodyScans p) = Some f" "side (bodyScans p) = Some s" "back' (bodyScans p) = Some b"
    "newClient env = Returns u"
  shows "calls (handleGenerate env w)
     = calls w @ [\<lparr>model = modelName, parts = requestParts clothing f s b p (selectedPose w),
                   responseModalities = [IMAGE, TEXT]\<rparr>]"
  using assms
  by (simp add: handleGenerate_def Let_def handleResponse_def changePage_def
           split: Try.splits option.splits)

lemma handleGenerate_part0_issued:
  assumes "clothingImage w = Some clothing" "profile w = Some p"
    "front (bodyScans p) = Some f" "side (bodyScans p) = Some s" "back' (bodyScans p) = Some b"
    "newClient env = Returns u"
  shows "calls (handleGenerate_part0 env w)
     = calls w @ [\<lparr>model = modelName,
                   parts = requestParts_part0 clothing f s b p (selectedPose w),
                   responseModalities = [IMAGE, TEXT]\<rparr>]"
  using assms
  by (simp add: handleGenerate_part0_def Let_def caught_def
           split: Try.splits option.splits sum.splits)

text \<open>
  Claim C2, as the code has it. The request that a generation sends has these parts, in this
  order. In \<^verbatim>\<open>src/unnamed/part_000\<close>: the face image if the profile has one, the front, side
  and back scans, the clothing image, and the text. In \<^verbatim>\<open>src/index.tsx\<close>, where a profile
  has no face image: the clothing image, the front, side and back scans, and the text. In
  both the text is one part, the last.
\<close>

theorem C2_request_parts:
  "(clothingImage w = Some clothing \<and> profile w = Some p
      \<and> bodyScans p = \<lparr>front = Some f, side = Some s, back' = Some b\<rparr>
      \<and> newClient env = Returns () \<longrightarrow>
      map parts (calls (handleGenerate env w))
        = map parts (calls w)
          @ [[inlinePart clothing, inlinePart f, inlinePart s, inlinePart b,
              Text [name p, userProvidedProfile p, name p, name p, poseText (selectedPose w)]]])
   \<and> (clothingImage v = Some clothing \<and> profile v = Some q
      \<and> bodyScans q = \<lparr>front = Some f, side = Some s, back' = Some b\<rparr>
      \<and> newClient env = Returns () \<longrightarrow>
      map parts (calls (handleGenerate_part0 env v))
        = map parts (calls v)
          @ [(case faceImage q of None \<Rightarrow> [] | Some face \<Rightarrow> [inlinePart face])
             @ [inlinePart f, inlinePart s, inlinePart b, inlinePart clothing,
                Text [case bodyType q of None \<Rightarrow> ''not specified'' | Some t \<Rightarrow> bodyTypeText t,
                      if faceImage q \<noteq> None
                      then ''You are also provided with a selfie. Use this to understand the user's facial features, skin tone, and hairstyle.''
                      else ''No selfie provided; generate a face that matches the general features of the person in the body scans.'',
                      poseText (selectedPose v)]]])"
proof (intro conjI impI)
  assume a: "clothingImage w = Some clothing \<and> profile w = Some p
      \<and> bodyScans p = \<lparr>front = Some f, side = Some s, back' = Some b\<rparr>
      \<and> newClient env = Returns ()"
  have "calls (handleGenerate env w)
     = calls w @ [\<lparr>model = modelName, parts = requestParts clothing f s b p (selectedPose w),
                   responseModalities = [IMAGE, TEXT]\<rparr>]"
    by (rule handleGenerate_issued[where u="()"]) (simp_all add: a)
  then show "map parts (calls (handleGenerate env w))
        = map parts (calls w)
          @ [[inlinePart clothing, inlinePart f, inlinePart s, inlinePart b,
              Text [name p, userProvidedProfile p, name p, name p, poseText (selectedPose w)]]]"
    by (simp add: requestParts_def)
next
  assume a: "clothingImage v = Some clothing \<and> profile v = Some q
      \<and> bodyScans q = \<lparr>front = Some f, side = Some s, back' = Some b\<rparr>
      \<and> newClient env = Returns ()"
  have "calls (handleGenerate_part0 env v)
     = calls v @ [\<lparr>model = modelName,
                   parts = requestParts_part0 clothing f s b q (selectedPose v),
                   responseModalities = [IMAGE, TEXT]\<rparr>]"
    by (rule handleGenerate_part0_issued[where u="()"]) (simp_all add: a)
  then show "map parts (calls (handleGenerate_part0 env v))
        = map parts (calls v)
          @ [(case faceImage q of None \<Rightarrow> [] | Some face \<Rightarrow> [inlinePart face])
             @ [inlinePart f, inlinePart s, inlinePart b, inlinePart clothing,
                Text [case bodyType q of None \<Rightarrow> ''not specified'' | Some t \<Rightarrow> bodyTypeText t,
                      if faceImage q \<noteq> None
                      then ''You are also provided with a selfie. Use this to understand the user's facial features, skin tone, and hairstyle.''
                      else ''No selfie provided; generate a face that matches the general features of the person in the body scans.'',
                      poseText (selectedPose v)]]]"
    by (simp add: requestParts_part0_def)
qed

theorem C2_request_parts_witness:
  "map parts (calls (handleGenerate (exampleEnv refusal) exampleWorld))
     = [[inlinePart (exampleImage ''C''), inlinePart (exampleImage ''F''),
         inlinePart (exampleImage ''S''), inlinePart (exampleImage ''B''),
         Text [''Alex'', userProvidedProfile exampleProfile, ''Alex'', ''Alex'',
               ''Standing Straight'']]]
   \<and> map parts (calls (handleGenerate_part0 (exampleEnv refusal) exampleFaceWorld))
     = [[inlinePart (exampleImage ''A''), inlinePart (exampleImage ''F''),
         inlinePart (exampleImage ''S''), inlinePart (exampleImage ''B''),
         inlinePart (exampleImage ''C''),
         Text [''not specified'',
               ''You are also provided with a selfie. Use this to understand the user's facial features, skin tone, and hairstyle.'',
               ''Standing Straight'']]]"
proof -
  have e: "clothingImage exampleWorld = Some (exampleImage ''C'')"
    "profile exampleWorld = Some exampleProfile"
    "calls exampleWorld = []" "selectedPose exampleWorld = StandingStraight"
    "clothingImage exampleFaceWorld = Some (exampleImage ''C'')"
    "profile exampleFaceWorld = Some exampleFaceProfile"
    "calls exampleFaceWorld = []" "selectedPose exampleFaceWorld = StandingStraight"
    "newClient (exampleEnv refusal) = Returns ()"
    by (simp_all add: exampleWorld_def exampleFaceWorld_def exampleEnv_def)
  have p: "bodyScans exampleProfile
      = \<lparr>front = Some (exampleImage ''F''), side = Some (exampleImage ''S''),
         back' = Some (exampleImage ''B'')\<rparr>"
    "name exampleProfile = ''Alex''"
    "bodyScans exampleFaceProfile
      = \<lparr>front = Some (exampleImage ''F''), side = Some (exampleImage ''S''),
         back' = Some (exampleImage ''B'')\<rparr>"
    "bodyType exampleFaceProfile = None"
    "faceImage exampleFaceProfile = Some (exampleImage ''A'')"
    by (simp_all add: exampleProfile_def exampleFaceProfile_def)
  show ?thesis
    using C2_request_parts[where w = exampleWorld and v = exampleFaceWorld
            and env = "exampleEnv refusal" and clothing = "exampleImage ''C''"
            and p = exampleProfile and q = exampleFaceProfile
            and f = "exampleImage ''F''" and s = "exampleImage ''S''"
            and b = "exampleImage ''B''"]
    by (simp add: e p poseText_def)
qed

text \<open>
  Claim C2 as stated fails in \<^verbatim>\<open>src/index.tsx\<close>: the first four parts of the request are
  the clothing image and then the three scans, not the three scans and then the clothing
  image.
\<close>

theorem C2_counterexample:
  "take 4 (parts (hd (calls (handleGenerate (exampleEnv refusal) exampleWorld))))
     = [inlinePart (exampleImage ''C''), inlinePart (exampleImage ''F''),
        inlinePart (exampleImage ''S''), inlinePart (exampleImage ''B'')]
   \<and> take 4 (parts (hd (calls (handleGenerate (exampleEnv refusal) exampleWorld))))
     \<noteq> [inlinePart (exampleImage ''F''), inlinePart (exampleImage ''S''),
         inlinePart (exampleImage ''B''), inlinePart (exampleImage ''C'')]"
proof -
  have "calls (handleGenerate (exampleEnv refusal) exampleWorld)
     = calls exampleWorld
       @ [\<lparr>model = modelName,
           parts = requestParts (exampleImage ''C'') (exampleImage ''F'') (exampleImage ''S'')
                     (exampleImage ''B'') exampleProfile (selectedPose exampleWorld),
           responseModalities = [IMAGE, TEXT]\<rparr>]"
    by (rule handleGenerate_issued[where u="()"])
       (simp_all add: exampleWorld_def exampleProfile_def exampleEnv_def)
  then show ?thesis
    by (simp add: exampleWorld_def requestParts_def inlinePart_def exampleImage_def)
qed

lemma find_first: "\<forall>q \<in> set pre. \<not> P q \<Longrightarrow> P x \<Longrightarrow> find P (pre @ x # post) = Some x"
  by (induction pre) simp_all

lemma find_none: "\<forall>q \<in> set ps. \<not> P q \<Longrightarrow> find P ps = None"
  by (induction ps) simp_all

lemma generatedImage_first:
  "\<forall>q \<in> set pre. (case inlineData q of
                       None \<Rightarrow> True
                     | Some c \<Rightarrow> \<not> prefix ''image/'' (blobMimeType c))
   \<Longrightarrow> inlineData part = Some blob \<Longrightarrow> prefix ''image/'' (blobMimeType blob)
   \<Longrightarrow> generatedImage (pre @ part # post) = Some blob"
  by (induction pre) (auto split: option.splits)

lemma generatedImage_none:
  "\<forall>q \<in> set ps. (case inlineData q of
                      None \<Rightarrow> True
                    | Some c \<Rightarrow> \<not> prefix ''image/'' (blobMimeType c))
   \<Longrightarrow> generatedImage ps = None"
  by (induction ps) (auto split: option.splits)

lemma handleResponse_image:
  assumes "firstCandidateParts r = Some (pre @ part # post)"
    "\<forall>q \<in> set pre. inlineData q = None" "inlineData part = Some blob"
  shows "handleResponse now r w
     = changePage now PResult
         (w\<lparr>resultImage := Some (dataUrl (blobMimeType blob) (blobData blob))\<rparr>)"
proof -
  have "imagePart r = Some part"
    using assms by (simp add: imagePart_def find_first)
  then show ?thesis
    using assms(3) by (simp add: handleResponse_def)
qed

lemma handleResponse_no_image:
  assumes "case firstCandidateParts r of
             None \<Rightarrow> True
           | Some ps \<Rightarrow> \<forall>q \<in> set ps. inlineData q = None"
  shows "handleResponse now r w
     = changePage now PCreator
         (w\<lparr>error := Some (''Failed to generate image. Response: ''
                            @ (if truthy (responseText r) then orEmpty (responseText r)
                               else defaultExplanation))\<rparr>)"
proof -
  have "imagePart r = None"
    using assms by (auto simp: imagePart_def find_none split: option.splits)
  then show ?thesis
    by (simp add: handleResponse_def Let_def)
qed

lemma handleGenerate_returns:
  assumes "clothingImage w = Some clothing" "profile w = Some p"
    "front (bodyScans p) = Some f" "side (bodyScans p) = Some s" "back' (bodyScans p) = Some b"
    "newClient env = Returns u"
    "generateContent env
       \<lparr>model = modelName, parts = requestParts clothing f s b p (selectedPose w),
        responseModalities = [IMAGE, TEXT]\<rparr> = Returns r"
  shows "handleGenerate env w
     = handleResponse (endTime env) r
         ((changePage (startTime env) PLoading w)
            \<lparr>error := None, resultImage := None,
             calls := calls w @ [\<lparr>model = modelName,
                                   parts = requestParts clothing f s b p (selectedPose w),
                                   responseModalities = [IMAGE, TEXT]\<rparr>]\<rparr>)"
  using assms by (simp add: handleGenerate_def Let_def changePage_def)

lemma handleGenerate_part0_returns:
  assumes "clothingImage w = Some clothing" "profile w = Some p"
    "front (bodyScans p) = Some f" "side (bodyScans p) = Some s" "back' (bodyScans p) = Some b"
    "newClient env = Returns u"
    "generateContent env
       \<lparr>model = modelName, parts = requestParts_part0 clothing f s b p (selectedPose w),
        responseModalities = [IMAGE, TEXT]\<rparr> = Returns r"
  shows "handleGenerate_part0 env w
     = (let w2 = w\<lparr>page := PLoading, resultImage := None, error := None,
                   calls := calls w
                     @ [\<lparr>model = modelName,
                         parts = requestParts_part0 clothing f s b p (selectedPose w),
                         responseModalities = [IMAGE, TEXT]\<rparr>]\<rparr>
        in case strictParts r of
             Inl failed \<Rightarrow> caught (Some (typeErrorMessage env failed)) w2
           | Inr ps \<Rightarrow>
               (case generatedImage ps of
                  Some blob \<Rightarrow>
                    w2\<lparr>resultImage := Some (dataUrl (blobMimeType blob) (blobData blob)),
                       page := PResult, isOutfitSaved := False, newOutfitName := []\<rparr>
                | None \<Rightarrow> caught (Some noImageMessage) w2))"
  using assms
  by (simp add: handleGenerate_part0_def Let_def split: option.splits sum.splits)

text \<open>
  Claim C4, as the code has it, for a generation that passes the validation and whose
  request the service answers. In \<^verbatim>\<open>src/index.tsx\<close>: when a part of the first candidate
  carries inline image data and no part before it carries inline data, that part gives the
  result image and the result page; when the response has no first candidate with parts, or
  none of its parts carries inline data, the creator page shows the text of the response, or
  the default explanation when that text is missing or empty. In \<^verbatim>\<open>src/unnamed/part_000\<close>:
  the first part of the first candidate that carries inline data whose media type starts
  with \<^verbatim>\<open>image/\<close> gives the result image and the result page; when the first candidate
  has parts and none is such a part, the creator page shows one fixed explanation, whatever
  the text of the response; when reading the parts of the first candidate throws, the
  creator page shows the message of that error, or a fixed request to try again when the
  message is empty.
\<close>

theorem C4_response_handling:
  assumes w: "clothingImage w = Some clothing" "profile w = Some p"
      "bodyScans p = \<lparr>front = Some f, side = Some s, back' = Some b\<rparr>"
    and env: "newClient env = Returns ()"
      "generateContent env
         \<lparr>model = modelName, parts = requestParts clothing f s b p (selectedPose w),
          responseModalities = [IMAGE, TEXT]\<rparr> = Returns r"
    and v: "clothingImage v = Some clothing'" "profile v = Some q"
      "bodyScans q = \<lparr>front = Some f', side = Some s', back' = Some b'\<rparr>"
    and env': "newClient env' = Returns ()"
      "generateContent env'
         \<lparr>model = modelName, parts = requestParts_part0 clothing' f' s' b' q (selectedPose v),
          responseModalities = [IMAGE, TEXT]\<rparr> = Returns r'"
  shows "(firstCandidateParts r = Some (pre @ part # post)
          \<and> (\<forall>x \<in> set pre. inlineData x = None)
          \<and> inlineData part = Some blob \<and> prefix ''image/'' (blobMimeType blob) \<longrightarrow>
            page (handleGenerate env w) = PResult
            \<and> resultImage (handleGenerate env w)
                = Some (dataUrl (blobMimeType blob) (blobData blob))
            \<and> error (handleGenerate env w) = None)
       \<and> ((case firstCandidateParts r of
              None \<Rightarrow> True
            | Some xs \<Rightarrow> \<forall>x \<in> set xs. inlineData x = None) \<longrightarrow>
            page (handleGenerate env w) = PCreator
            \<and> resultImage (handleGenerate env w) = None
            \<and> error (handleGenerate env w)
                = Some (''Failed to generate image. Response: ''
                        @ (case responseText r of
                             None \<Rightarrow> defaultExplanation
                           | Some t \<Rightarrow> if t = [] then defaultExplanation else t)))
       \<and> (strictParts r' = Inr (pre' @ part' # post')
          \<and> (\<forall>x \<in> set pre'. case inlineData x of
                                 None \<Rightarrow> True
                               | Some c \<Rightarrow> \<not> prefix ''image/'' (blobMimeType c))
          \<and> inlineData part' = Some blob' \<and> prefix ''image/'' (blobMimeType blob') \<longrightarrow>
            page (handleGenerate_part0 env' v) = PResult
            \<and> resultImage (handleGenerate_part0 env' v)
                = Some (dataUrl (blobMimeType blob') (blobData blob'))
            \<and> error (handleGenerate_part0 env' v) = None)
       \<and> (strictParts r' = Inr ps
          \<and> (\<forall>x \<in> set ps. case inlineData x of
                               None \<Rightarrow> True
                             | Some c \<Rightarrow> \<not> prefix ''image/'' (blobMimeType c)) \<longrightarrow>
            page (handleGenerate_part0 env' v) = PCreator
            \<and> resultImage (handleGenerate_part0 env' v) = None
            \<and> error (handleGenerate_part0 env' v)
                = Some (''Sorry, we couldn't generate the image. '' @ noImageMessage))
       \<and> (strictParts r' = Inl failed \<longrightarrow>
            page (handleGenerate_part0 env' v) = PCreator
            \<and> resultImage (handleGenerate_part0 env' v) = None
            \<and> error (handleGenerate_part0 env' v)
                = Some (''Sorry, we couldn't generate the image. ''
                        @ (if typeErrorMessage env' failed = [] then ''Please try again.''
                           else typeErrorMessage env' failed)))"
proof -
  have g: "handleGenerate env w = handleResponse (endTime env) r
         ((changePage (startTime env) PLoading w)
            \<lparr>error := None, resultImage := None,
             calls := calls w @ [\<lparr>model = modelName,
                                   parts = requestParts clothing f s b p (selectedPose w),
                                   responseModalities = [IMAGE, TEXT]\<rparr>]\<rparr>)"
    by (rule handleGenerate_returns[OF w(1,2) _ _ _ env(1,2)]) (simp_all add: w(3))
  have g0: "handleGenerate_part0 env' v
     = (let w2 = v\<lparr>page := PLoading, resultImage := None, error := None,
                   calls := calls v
                     @ [\<lparr>model = modelName,
                         parts = requestParts_part0 clothing' f' s' b' q (selectedPose v),
                         responseModalities = [IMAGE, TEXT]\<rparr>]\<rparr>
        in case strictParts r' of
             Inl failed \<Rightarrow> caught (Some (typeErrorMessage env' failed)) w2
           | Inr ps \<Rightarrow>
               (case generatedImage ps of
                  Some blob \<Rightarrow>
                    w2\<lparr>resultImage := Some (dataUrl (blobMimeType blob) (blobData blob)),
                       page := PResult, isOutfitSaved := False, newOutfitName := []\<rparr>
                | None \<Rightarrow> caught (Some noImageMessage) w2))"
    by (rule handleGenerate_part0_returns[OF v(1,2) _ _ _ env'(1,2)]) (simp_all add: v(3))
  have a: "firstCandidateParts r = Some (pre @ part # post)
          \<and> (\<forall>x \<in> set pre. inlineData x = None)
          \<and> inlineData part = Some blob \<and> prefix ''image/'' (blobMimeType blob) \<longrightarrow>
            page (handleGenerate env w) = PResult
            \<and> resultImage (handleGenerate env w)
                = Some (dataUrl (blobMimeType blob) (blobData blob))
            \<and> error (handleGenerate env w) = None"
    by (auto simp: g handleResponse_image changePage_def)
  have b: "(case firstCandidateParts r of
              None \<Rightarrow> True
            | Some xs \<Rightarrow> \<forall>x \<in> set xs. inlineData x = None) \<longrightarrow>
            page (handleGenerate env w) = PCreator
            \<and> resultImage (handleGenerate env w) = None
            \<and> error (handleGenerate env w)
                = Some (''Failed to generate image. Response: ''
                        @ (case responseText r of
                             None \<Rightarrow> defaultExplanation
                           | Some t \<Rightarrow> if t = [] then defaultExplanation else t))"
    by (auto simp: g handleResponse_no_image changePage_def truthy_def orEmpty_def
             split: option.splits)
  have c: "strictParts r' = Inr (pre' @ part' # post')
          \<and> (\<forall>x \<in> set pre'. case inlineData x of
                                 None \<Rightarrow> True
                               | Some c \<Rightarrow> \<not> prefix ''image/'' (blobMimeType c))
          \<and> inlineData part' = Some blob' \<and> prefix ''image/'' (blobMimeType blob') \<longrightarrow>
            page (handleGenerate_part0 env' v) = PResult
            \<and> resultImage (handleGenerate_part0 env' v)
                = Some (dataUrl (blobMimeType blob') (blobData blob'))
            \<and> error (handleGenerate_part0 env' v) = None"
    by (auto simp: g0 generatedImage_first Let_def)
  have d: "strictParts r' = Inr ps
          \<and> (\<forall>x \<in> set ps. case inlineData x of
                               None \<Rightarrow> True
                             | Some c \<Rightarrow> \<not> prefix ''image/'' (blobMimeType c)) \<longrightarrow>
            page (handleGenerate_part0 env' v) = PCreator
            \<and> resultImage (handleGenerate_part0 env' v) = None
            \<and> error (handleGenerate_part0 env' v)
                = Some (''Sorry, we couldn't generate the image. '' @ noImageMessage)"
    by (auto simp: g0 generatedImage_none Let_def caught_def truthy_def orEmpty_def
                   noImageMessage_def)
  have e: "strictParts r' = Inl failed \<longrightarrow>
            page (handleGenerate_part0 env' v) = PCreator
            \<and> resultImage (handleGenerate_part0 env' v) = None
            \<and> error (handleGenerate_part0 env' v)
                = Some (''Sorry, we couldn't generate the image. ''
                        @ (if typeErrorMessage env' failed = [] then ''Please try again.''
                           else typeErrorMessage env' failed))"
    by (auto simp: g0 Let_def caught_def truthy_def orEmpty_def)
  from a b c d e show ?thesis
    by blast
qed

theorem C4_response_handling_witness:
  "page (handleGenerate (exampleEnv imageResponse) exampleWorld) = PResult
   \<and> resultImage (handleGenerate (exampleEnv imageResponse) exampleWorld)
     = Some ''data:image/png;base64,IMG''
   \<and> page (handleGenerate (exampleEnv refusal) exampleWorld) = PCreator
   \<and> error (handleGenerate (exampleEnv refusal) exampleWorld)
     = Some ''Failed to generate image. Response: safety policy''
   \<and> page (handleGenerate_part0 (exampleEnv imageResponse) exampleFaceWorld) = PResult
   \<and> resultImage (handleGenerate_part0 (exampleEnv imageResponse) exampleFaceWorld)
     = Some ''data:image/png;base64,IMG''
   \<and> page (handleGenerate_part0 (exampleEnv refusal) exampleFaceWorld) = PCreator
   \<and> page (handleGenerate_part0 (exampleEnv blockedResponse) exampleFaceWorld) = PCreator
   \<and> error (handleGenerate_part0 (exampleEnv blockedResponse) exampleFaceWorld)
     = Some ''Sorry, we couldn't generate the image. Cannot read properties of undefined (reading '0')''"
proof -
  have e: "clothingImage exampleWorld = Some (exampleImage ''C'')"
    "profile exampleWorld = Some exampleProfile"
    "bodyScans exampleProfile
      = \<lparr>front = Some (exampleImage ''F''), side = Some (exampleImage ''S''),
         back' = Some (exampleImage ''B'')\<rparr>"
    by (simp_all add: exampleWorld_def exampleProfile_def)
  have e': "clothingImage exampleFaceWorld = Some (exampleImage ''C'')"
    "profile exampleFaceWorld = Some exampleFaceProfile"
    "bodyScans exampleFaceProfile
      = \<lparr>front = Some (exampleImage ''F''), side = Some (exampleImage ''S''),
         back' = Some (exampleImage ''B'')\<rparr>"
    by (simp_all add: exampleFaceWorld_def exampleFaceProfile_def)
  have s: "newClient (exampleEnv r) = Returns ()" "generateContent (exampleEnv r) x = Returns r"
    for r x
    by (simp_all add: exampleEnv_def)
  have m: "typeErrorMessage (exampleEnv r) ReadFirst
      = ''Cannot read properties of undefined (reading '0')''" for r
    by (simp add: exampleEnv_def)
  note hi = C4_response_handling[OF e s e' s,
      where pre = "[ResponsePart None (Some ''Here it is'')]"
        and part = "ResponsePart (Some (Blob ''IMG'' ''image/png'')) None" and post = "[]"
        and blob = "Blob ''IMG'' ''image/png''"
        and pre' = "[ResponsePart None (Some ''Here it is'')]"
        and part' = "ResponsePart (Some (Blob ''IMG'' ''image/png'')) None" and post' = "[]"
        and blob' = "Blob ''IMG'' ''image/png''"]
  note hr = C4_response_handling[OF e s e' s,
      where ps = "[ResponsePart None (Some ''safety policy'')]"]
  note hb = C4_response_handling[OF e s e' s, where failed = ReadFirst]
  have a: "page (handleGenerate (exampleEnv imageResponse) exampleWorld) = PResult
      \<and> resultImage (handleGenerate (exampleEnv imageResponse) exampleWorld)
        = Some (dataUrl (blobMimeType (Blob ''IMG'' ''image/png''))
                  (blobData (Blob ''IMG'' ''image/png'')))
      \<and> error (handleGenerate (exampleEnv imageResponse) exampleWorld) = None"
    by (rule hi[THEN conjunct1, THEN mp])
       (simp add: firstCandidateParts_def imageResponse_def)
  have b: "page (handleGenerate (exampleEnv refusal) exampleWorld) = PCreator
      \<and> resultImage (handleGenerate (exampleEnv refusal) exampleWorld) = None
      \<and> error (handleGenerate (exampleEnv refusal) exampleWorld)
        = Some (''Failed to generate image. Response: ''
                @ (case responseText refusal of
                     None \<Rightarrow> defaultExplanation
                   | Some t \<Rightarrow> if t = [] then defaultExplanation else t))"
    by (rule hr[THEN conjunct2, THEN conjunct1, THEN mp])
       (simp add: firstCandidateParts_def refusal_def)
  have c: "page (handleGenerate_part0 (exampleEnv imageResponse) exampleFaceWorld) = PResult
      \<and> resultImage (handleGenerate_part0 (exampleEnv imageResponse) exampleFaceWorld)
        = Some (dataUrl (blobMimeType (Blob ''IMG'' ''image/png''))
                  (blobData (Blob ''IMG'' ''image/png'')))
      \<and> error (handleGenerate_part0 (exampleEnv imageResponse) exampleFaceWorld) = None"
    by (rule hi[THEN conjunct2, THEN conjunct2, THEN conjunct1, THEN mp])
       (simp add: strictParts_def imageResponse_def)
  have d: "page (handleGenerate_part0 (exampleEnv refusal) exampleFaceWorld) = PCreator
      \<and> resultImage (handleGenerate_part0 (exampleEnv refusal) exampleFaceWorld) = None
      \<and> error (handleGenerate_part0 (exampleEnv refusal) exampleFaceWorld)
        = Some (''Sorry, we couldn't generate the image. '' @ noImageMessage)"
    by (rule hr[THEN conjunct2, THEN conjunct2, THEN conjunct2, THEN conjunct1, THEN mp])
       (simp add: strictParts_def refusal_def)
  have f: "page (handleGenerate_part0 (exampleEnv blockedResponse) exampleFaceWorld) = PCreator
      \<and> resultImage (handleGenerate_part0 (exampleEnv blockedResponse) exampleFaceWorld) = None
      \<and> error (handleGenerate_part0 (exampleEnv blockedResponse) exampleFaceWorld)
        = Some (''Sorry, we couldn't generate the image. ''
                @ (if typeErrorMessage (exampleEnv blockedResponse) ReadFirst = []
                   then ''Please try again.''
                   else typeErrorMessage (exampleEnv blockedResponse) ReadFirst))"
    by (rule hb[THEN conjunct2, THEN conjunct2, THEN conjunct2, THEN conjunct2, THEN mp])
       (simp add: strictParts_def blockedResponse_def)
  show ?thesis
    using a b c d f by (simp add: dataUrl_def refusal_def m)
qed

text \<open>
  Claim C4 as stated fails in three ways. In \<^verbatim>\<open>src/unnamed/part_000\<close>, for a response
  without an image whose text is \<^verbatim>\<open>safety policy\<close>, the message shown does not carry that
  text; nor does it for a response without candidates. In \<^verbatim>\<open>src/index.tsx\<close>, for a response
  whose first part is inline data of type \<^verbatim>\<open>text/plain\<close> and whose second part is an image,
  the result shown is the first part, not the image.
\<close>

theorem C4_counterexample:
  "responseText refusal = Some ''safety policy''
   \<and> error (handleGenerate_part0 (exampleEnv refusal) exampleFaceWorld)
     = Some ''Sorry, we couldn't generate the image. The AI did not return an image. It might have responded with text instead. Please check your prompt or try a different image.''
   \<and> \<not> sublist ''safety policy''
         (orEmpty (error (handleGenerate_part0 (exampleEnv refusal) exampleFaceWorld)))
   \<and> responseText blockedResponse = Some ''safety policy''
   \<and> error (handleGenerate_part0 (exampleEnv blockedResponse) exampleFaceWorld)
     = Some ''Sorry, we couldn't generate the image. Cannot read properties of undefined (reading '0')''
   \<and> page (handleGenerate (exampleEnv mixedResponse) exampleWorld) = PResult
   \<and> resultImage (handleGenerate (exampleEnv mixedResponse) exampleWorld)
     = Some ''data:text/plain;base64,TXT''"
proof -
  have e: "error (handleGenerate_part0 (exampleEnv refusal) exampleFaceWorld)
     = Some ''Sorry, we couldn't generate the image. The AI did not return an image. It might have responded with text instead. Please check your prompt or try a different image.''"
    by (simp add: handleGenerate_part0_def exampleFaceWorld_def exampleEnv_def refusal_def
          exampleFaceProfile_def Let_def caught_def truthy_def orEmpty_def noImageMessage_def
          strictParts_def)
  have n: "\<not> sublist ''safety policy'' ''Sorry, we couldn't generate the image. The AI did not return an image. It might have responded with text instead. Please check your prompt or try a different image.''"
    by code_simp
  have b: "error (handleGenerate_part0 (exampleEnv blockedResponse) exampleFaceWorld)
     = Some ''Sorry, we couldn't generate the image. Cannot read properties of undefined (reading '0')''"
    by (simp add: handleGenerate_part0_def exampleFaceWorld_def exampleEnv_def
          blockedResponse_def exampleFaceProfile_def Let_def caught_def truthy_def orEmpty_def
          strictParts_def)
  have m: "page (handleGenerate (exampleEnv mixedResponse) exampleWorld) = PResult
   \<and> resultImage (handleGenerate (exampleEnv mixedResponse) exampleWorld)
     = Some ''data:text/plain;base64,TXT''"
    by (simp add: handleGenerate_def exampleWorld_def exampleProfile_def exampleEnv_def
          mixedResponse_def Let_def handleResponse_def imagePart_def firstCandidateParts_def
          changePage_def dataUrl_def)
  show ?thesis
    unfolding e b using n m by (simp add: refusal_def blockedResponse_def orEmpty_def)
qed

lemma changePage_frame:
  "profile (changePage now pg w) = profile w"
  "clothingImage (changePage now pg w) = clothingImage w"
  "selectedPose (changePage now pg w) = selectedPose w"
  "isSavingOutfit (changePage now pg w) = isSavingOutfit w"
  "newOutfitName (changePage now pg w) = newOutfitName w"
  "isOutfitSaved (changePage now pg w) = isOutfitSaved w"
  "localStorage (changePage now pg v) = localStorage v"
  "calls (changePage now pg v) = calls v"
  by (simp_all add: changePage_def)

lemma handleResponse_frame:
  "profile (handleResponse now r w) = profile w"
  "clothingImage (handleResponse now r w) = clothingImage w"
  "selectedPose (handleResponse now r w) = selectedPose w"
  "isSavingOutfit (handleResponse now r w) = isSavingOutfit w"
  "newOutfitName (handleResponse now r w) = newOutfitName w"
  "isOutfitSaved (handleResponse now r w) = isOutfitSaved w"
  "localStorage (handleResponse now r v) = localStorage v"
  "calls (handleResponse now r v) = calls v"
  by (simp_all add: handleResponse_def changePage_def Let_def split: option.splits)

lemma caught_frame:
  "profile (caught m w) = profile w"
  "clothingImage (caught m w) = clothingImage w"
  "selectedPose (caught m w) = selectedPose w"
  "isSavingOutfit (caught m w) = isSavingOutfit w"
  "localStorage (caught m v) = localStorage v"
  "calls (caught m v) = calls v"
  by (simp_all add: caught_def)

lemma handleGenerate_frame:
  "profile (handleGenerate env w) = profile w
   \<and> localStorage (handleGenerate env w) = localStorage w
   \<and> clothingImage (handleGenerate env w) = clothingImage w
   \<and> selectedPose (handleGenerate env w) = selectedPose w
   \<and> isSavingOutfit (handleGenerate env w) = isSavingOutfit w
   \<and> newOutfitName (handleGenerate env w) = newOutfitName w
   \<and> isOutfitSaved (handleGenerate env w) = isOutfitSaved w
   \<and> prefix (calls w) (calls (handleGenerate env w))
   \<and> length (calls (handleGenerate env w)) \<le> length (calls w) + 1"
  by (simp add: handleGenerate_def changePage_frame handleResponse_frame Let_def
           split: option.splits Try.splits)

lemma handleGenerate_part0_frame:
  "profile (handleGenerate_part0 env v) = profile v
   \<and> localStorage (handleGenerate_part0 env v) = localStorage v
   \<and> clothingImage (handleGenerate_part0 env v) = clothingImage v
   \<and> selectedPose (handleGenerate_part0 env v) = selectedPose v
   \<and> isSavingOutfit (handleGenerate_part0 env v) = isSavingOutfit v
   \<and> prefix (calls v) (calls (handleGenerate_part0 env v))
   \<and> length (calls (handleGenerate_part0 env v)) \<le> length (calls v) + 1"
  by (simp add: handleGenerate_part0_def caught_frame Let_def
           split: option.splits Try.splits sum.splits)

text \<open>
  Claim C10. Whatever the state, the clock, the client and the service, a generation leaves
  the profile and the stored record as they are, and the clothing image and the pose; what it
  adds to the requests sent is nothing or one request. In \<^verbatim>\<open>src/index.tsx\<close> it changes the
  page, its key, the result image and the message only; in \<^verbatim>\<open>src/unnamed/part_000\<close> it may
  also clear the name typed for the outfit and the mark that the result is saved.
\<close>

theorem C10_frame:
  "profile (handleGenerate env w) = profile w
   \<and> localStorage (handleGenerate env w) = localStorage w
   \<and> clothingImage (handleGenerate env w) = clothingImage w
   \<and> selectedPose (handleGenerate env w) = selectedPose w
   \<and> isSavingOutfit (handleGenerate env w) = isSavingOutfit w
   \<and> newOutfitName (handleGenerate env w) = newOutfitName w
   \<and> isOutfitSaved (handleGenerate env w) = isOutfitSaved w
   \<and> prefix (calls w) (calls (handleGenerate env w))
   \<and> length (calls (handleGenerate env w)) \<le> length (calls w) + 1
   \<and> profile (handleGenerate_part0 env v) = profile v
   \<and> localStorage (handleGenerate_part0 env v) = localStorage v
   \<and> clothingImage (handleGenerate_part0 env v) = clothingImage v
   \<and> selectedPose (handleGenerate_part0 env v) = selectedPose v
   \<and> isSavingOutfit (handleGenerate_part0 env v) = isSavingOutfit v
   \<and> prefix (calls v) (calls (handleGenerate_part0 env v))
   \<and> length (calls (handleGenerate_part0 env v)) \<le> length (calls v) + 1"
  using handleGenerate_frame[of env w] handleGenerate_part0_frame[of env v]
  by simp

theorem C10_frame_witness:
  "profile (handleGenerate (exampleEnv imageResponse) exampleWorld) = Some exampleProfile
   \<and> localStorage (handleGenerate (exampleEnv imageResponse) exampleWorld)
     = Some (toStored exampleProfile)
   \<and> length (calls (handleGenerate (exampleEnv imageResponse) exampleWorld)) \<le> 1
   \<and> profile (handleGenerate_part0 (exampleEnv refusal) exampleFaceWorld)
     = Some exampleFaceProfile
   \<and> localStorage (handleGenerate_part0 (exampleEnv refusal) exampleFaceWorld)
     = Some exampleFaceProfile"
  using C10_frame[where env = "exampleEnv imageResponse" and w = exampleWorld
          and v = exampleFaceWorld]
        C10_frame[where env = "exampleEnv refusal" and w = exampleWorld
          and v = exampleFaceWorld]
  by (simp add: exampleWorld_def exampleFaceWorld_def)

section \<open>Properties of the result page\<close>

text \<open>
  Once a save has been written, no action on the result page changes the profile or the
  stored record: the button that opens the form is disabled, and the form is closed.
\<close>

lemma handleSaveOutfit_written:
  "page w = PResult \<Longrightarrow> handleSaveOutfit now True w \<noteq> w \<Longrightarrow>
   savedGate (handleSaveOutfit now True w)"
  by (auto simp: handleSaveOutfit_def savedGate_def Let_def split: option.splits if_splits)

lemma savedGate_action:
  "savedGate w \<Longrightarrow>
   savedGate (resultAction now writeOk a w)
   \<and> profile (resultAction now writeOk a w) = profile w
   \<and> localStorage (resultAction now writeOk a w) = localStorage w"
  by (cases a) (auto simp: savedGate_def resultAction_def changePage_def handleReset_def)

lemma savedGate_actions:
  "savedGate w \<Longrightarrow>
   profile (resultActions as w) = profile w
   \<and> localStorage (resultActions as w) = localStorage w"
proof (induction as arbitrary: w)
  case Nil
  then show ?case
    by simp
next
  case (Cons x as)
  obtain now writeOk a where x: "x = (now, writeOk, a)"
    by (cases x)
  show ?case
    using Cons.IH[of "resultAction now writeOk a w"]
          savedGate_action[OF Cons.prems, of now writeOk a]
    by (simp add: x)
qed

text \<open>
  Claim C9 fails in \<^verbatim>\<open>src/index.tsx\<close> when the write to the local storage throws. On the
  result page, with the form open and a name typed, the first click on the button that
  confirms adds the outfit to the profile the application holds, and stops at the write:
  the result is not marked as saved and the form stays open. The second click adds the
  outfit a second time: the list of saved outfits holds the same result twice.
\<close>

theorem C9_duplicate_after_failed_write:
  "map_option savedOutfits
     (profile (resultActions [(1, False, ClickConfirmSave), (2, True, ClickConfirmSave)]
                 exampleResult))
     = Some [\<lparr>outfit_id = ''outfit_1'', outfit_name = ''Summer'',
               outfit_image = ''data:image/png;base64,IMG''\<rparr>,
             \<lparr>outfit_id = ''outfit_2'', outfit_name = ''Summer'',
               outfit_image = ''data:image/png;base64,IMG''\<rparr>]
   \<and> isOutfitSaved (resultAction 1 False ClickConfirmSave exampleResult) = False
   \<and> isSavingOutfit (resultAction 1 False ClickConfirmSave exampleResult) = True"
  by (simp add: exampleResult_def exampleWorld_def exampleProfile_def resultAction_def
        handleSaveOutfit_def Let_def trim_Summer show_nat_digit digit_def toStored_def)


end
